theory Spec2Isabelle
  imports Main
begin

section \<open>Data model (app/models.py, app/schemas.py)\<close>

text \<open>
  Python integers are unbounded, so every integer column is an \<open>int\<close>; the range
  that the database puts on an integer column is not modelled. Timestamps
  (\<open>created_at\<close>, \<open>updated_at\<close>) and the surrogate keys of order lines play no part in
  the order and payment services and are left out. The primary key of a product is the
  key of the product table; the primary key of an order is the field \<open>o_id\<close>.
\<close>

datatype ProductStatus = PRODUCT_DRAFT | PUBLISHED | ARCHIVED

datatype OrderStatus = DRAFT | PENDING | PAID | SHIPPED | COMPLETED | CANCELLED | REFUNDED

record Product =
  p_title :: string
  p_impact_co2_g :: "int option"
  p_price_cents :: int
  p_promo_price_cents :: "int option"
  p_stock :: int
  p_status :: ProductStatus
  p_is_published :: bool

record OrderLine =
  l_product_id :: "int option"
  l_product_title :: string
  l_quantity :: int
  l_unit_price_cents :: int
  l_reference_price_cents :: int
  l_subtotal_cents :: int
  l_impact_co2_g :: "int option"

record Order =
  o_id :: int
  o_user_id :: int
  o_status :: OrderStatus
  o_currency :: string
  o_total_amount_cents :: int
  o_total_items :: int
  o_total_impact_co2_g :: int
  o_payment_reference :: "string option"
  o_payment_provider :: "string option"
  o_idempotency_key :: "string option"
  o_placed_at :: "int option"
  o_notes :: "string option"
  o_lines :: "OrderLine list"

record User =
  u_id :: int

record OrderItemInput =
  item_product_id :: int
  item_quantity :: int

record OrderCreate =
  oc_items :: "OrderItemInput list"
  oc_notes :: "string option"

text \<open>
  The database: the product table as a map from primary key to row, the order table as
  the list of its rows in insertion order (it is queried by columns other than the key).
\<close>

record db =
  products :: "int \<rightharpoonup> Product"
  orders :: "Order list"

subsection \<open>Errors\<close>

datatype unavailable = Products_not_found "int list" | Not_available_for_purchase int

datatype error =
    OrderValidationError string
  | ProductUnavailableError unavailable
  | OutOfStockError int
  | PaymentProviderError string
  | KeyError int
  | IntegrityError
  | MultipleResultsFound
  | NoResultFound
  | ValidationError

section \<open>Python and SQLAlchemy primitives\<close>

text \<open>\<open>str.isspace\<close> on the code points below 256.\<close>

definition is_space :: "char \<Rightarrow> bool" where
  "is_space c = (let n = (of_char c :: nat) in
     (9 \<le> n \<and> n \<le> 13) \<or> (28 \<le> n \<and> n \<le> 32) \<or> n = 133 \<or> n = 160)"

definition strip :: "string \<Rightarrow> string" where
  "strip s = rev (dropWhile is_space (rev (dropWhile is_space s)))"

text \<open>Truthiness of an optional string: \<open>None\<close> and the empty string are falsy.\<close>

fun truthy :: "string option \<Rightarrow> bool" where
  "truthy None = False"
| "truthy (Some s) = (s \<noteq> [])"

text \<open>\<open>Result.scalar_one_or_none()\<close> and \<open>Result.scalar_one()\<close>.\<close>

fun scalar_one_or_none :: "'a list \<Rightarrow> error + 'a option" where
  "scalar_one_or_none [] = Inr None"
| "scalar_one_or_none [x] = Inr (Some x)"
| "scalar_one_or_none (x # y # zs) = Inl MultipleResultsFound"

fun scalar_one :: "'a list \<Rightarrow> error + 'a" where
  "scalar_one [] = Inl NoResultFound"
| "scalar_one [x] = Inr x"
| "scalar_one (x # y # zs) = Inl MultipleResultsFound"

text \<open>The autoincrement primary key of the order table: one more than the largest key in use.\<close>

definition next_order_id :: "Order list \<Rightarrow> int" where
  "next_order_id os = 1 + foldr (\<lambda>row m. max (o_id row) m) os 0"

section \<open>The order service (app/services/orders.py)\<close>

text \<open>The first loop of \<open>create_order\<close> (lines 102 to 107): it only reads.\<close>

fun check_items :: "(int \<rightharpoonup> Product) \<Rightarrow> OrderItemInput list \<Rightarrow> error option" where
  "check_items prods [] = None"
| "check_items prods (item # rest) =
     (case prods (item_product_id item) of
        None \<Rightarrow> Some (KeyError (item_product_id item))
      | Some product \<Rightarrow>
          if p_status product \<noteq> PUBLISHED \<or> \<not> p_is_published product
          then Some (ProductUnavailableError (Not_available_for_purchase (item_product_id item)))
          else if p_stock product < item_quantity item
          then Some (OutOfStockError (item_product_id item))
          else check_items prods rest)"

text \<open>The \<open>OrderLine\<close> built for one item (lines 125 to 139).\<close>

definition new_line :: "int \<Rightarrow> Product \<Rightarrow> OrderItemInput \<Rightarrow> OrderLine" where
  "new_line pid product item =
     (let sale_price = (case p_promo_price_cents product of
                          Some promo \<Rightarrow> promo | None \<Rightarrow> p_price_cents product);
          reference_price = (case p_promo_price_cents product of
                          Some promo \<Rightarrow> Some (p_price_cents product) | None \<Rightarrow> None);
          subtotal = sale_price * item_quantity item;
          co2 = (case p_impact_co2_g product of None \<Rightarrow> 0 | Some g \<Rightarrow> g) * item_quantity item
      in \<lparr> l_product_id = Some pid,
           l_product_title = p_title product,
           l_quantity = item_quantity item,
           l_unit_price_cents = sale_price,
           l_reference_price_cents =
             (case reference_price of Some r \<Rightarrow> r | None \<Rightarrow> p_price_cents product),
           l_subtotal_cents = subtotal,
           l_impact_co2_g = (if co2 \<noteq> 0 then Some co2 else None) \<rparr>)"

text \<open>
  The second loop (lines 123 to 145): it appends a line, adds to the totals of the order
  and decrements the stock of the product object held in the dict \<open>products\<close>.
\<close>

fun add_lines ::
  "Order \<Rightarrow> (int \<rightharpoonup> Product) \<Rightarrow> OrderItemInput list \<Rightarrow> error + Order \<times> (int \<rightharpoonup> Product)" where
  "add_lines order prods [] = Inr (order, prods)"
| "add_lines order prods (item # rest) =
     (case prods (item_product_id item) of
        None \<Rightarrow> Inl (KeyError (item_product_id item))
      | Some product \<Rightarrow>
          let line = new_line (item_product_id item) product item;
              order' = order \<lparr>
                o_lines := o_lines order @ [line],
                o_total_amount_cents := o_total_amount_cents order + l_subtotal_cents line,
                o_total_items := o_total_items order + item_quantity item,
                o_total_impact_co2_g := o_total_impact_co2_g order
                   + (case p_impact_co2_g product of None \<Rightarrow> 0 | Some g \<Rightarrow> g) * item_quantity item \<rparr>;
              product' = product \<lparr> p_stock := p_stock product - item_quantity item \<rparr>
          in add_lines order' (prods(item_product_id item \<mapsto> product')) rest)"

text \<open>
  \<open>db.commit()\<close> of the unit of work of \<open>create_order\<close>: the new order row and the
  changed product rows are written together. The unique index
  \<open>ux_orders_idempotency_key\<close> (models.py) rejects a key that another row holds; the
  transaction then fails as a whole.
\<close>

definition commit_order :: "db \<Rightarrow> Order \<Rightarrow> (int \<rightharpoonup> Product) \<Rightarrow> error + db" where
  "commit_order d order prods =
     (if \<exists>row \<in> set (orders d). o_idempotency_key row \<noteq> None
            \<and> o_idempotency_key row = o_idempotency_key order
      then Inl IntegrityError
      else Inr \<lparr> products = products d ++ prods, orders = orders d @ [order] \<rparr>)"

text \<open>
  \<open>create_order\<close>. The value of \<open>uuid4().hex\<close> and the clock are arguments. The result
  is the database after the call together with the exception raised or the pair returned.
  The primary key that the insert assigns is written into the header at once.

  Lines 73 and 74: the placeholder key is replaced by a fresh one.
\<close>

definition resolve_key :: "string \<Rightarrow> string \<Rightarrow> string" where
  "resolve_key uuid4_hex idempotency_key =
     (if idempotency_key = ''{{$uuid}}'' then uuid4_hex else idempotency_key)"

text \<open>Lines 76 to 82: the order of this user that carries the key.\<close>

definition existing_order :: "db \<Rightarrow> User \<Rightarrow> string \<Rightarrow> error + Order option" where
  "existing_order d user idempotency_key =
     scalar_one_or_none
       (filter (\<lambda>row. o_user_id row = u_id user
                      \<and> o_idempotency_key row = Some idempotency_key) (orders d))"

text \<open>Line 86: the set of the requested product ids.\<close>

definition product_ids :: "OrderCreate \<Rightarrow> int set" where
  "product_ids order_in = set (map item_product_id (oc_items order_in))"

text \<open>Lines 90 to 96: the dict of the products whose id is requested.\<close>

definition fetch_products :: "db \<Rightarrow> int set \<Rightarrow> (int \<rightharpoonup> Product)" where
  "fetch_products d ids = products d |` ids"

text \<open>Line 98: the requested ids that are no key of the dict.\<close>

definition missing_ids :: "int set \<Rightarrow> (int \<rightharpoonup> Product) \<Rightarrow> int set" where
  "missing_ids ids prods = {pid \<in> ids. prods pid = None}"

text \<open>Lines 109 to 120: the header of the new order.\<close>

definition new_order :: "db \<Rightarrow> User \<Rightarrow> string \<Rightarrow> int \<Rightarrow> string option \<Rightarrow> Order" where
  "new_order d user idempotency_key now payment_provider =
     \<lparr> o_id = next_order_id (orders d),
       o_user_id = u_id user,
       o_status = PENDING,
       o_currency = ''EUR'',
       o_total_amount_cents = 0,
       o_total_items = 0,
       o_total_impact_co2_g = 0,
       o_payment_reference = None,
       o_payment_provider = (if truthy payment_provider then payment_provider else None),
       o_idempotency_key = Some idempotency_key,
       o_placed_at = Some now,
       o_notes = None,
       o_lines = [] \<rparr>"

definition create_order ::
  "db \<Rightarrow> string \<Rightarrow> int \<Rightarrow> User \<Rightarrow> OrderCreate \<Rightarrow> string \<Rightarrow> string option
     \<Rightarrow> db \<times> (error + Order \<times> bool)" where
  "create_order d uuid4_hex now user order_in idempotency_key0 payment_provider =
     (if idempotency_key0 = []
      then (d, Inl (OrderValidationError ''Idempotency-Key header is required''))
      else if strip idempotency_key0 = []
      then (d, Inl (OrderValidationError ''Idempotency-Key header is required''))
      else
        let idempotency_key = resolve_key uuid4_hex idempotency_key0
        in (case existing_order d user idempotency_key of
             Inl e \<Rightarrow> (d, Inl e)
           | Inr (Some existing) \<Rightarrow> (d, Inr (existing, False))
           | Inr None \<Rightarrow>
               (if product_ids order_in = {}
                then (d, Inl (OrderValidationError ''Order requires at least one product''))
                else
                  let prods = fetch_products d (product_ids order_in) in
                  if missing_ids (product_ids order_in) prods \<noteq> {}
                  then (d, Inl (ProductUnavailableError
                                 (Products_not_found
                                    (sorted_list_of_set (missing_ids (product_ids order_in) prods)))))
                  else
                       (case check_items prods (oc_items order_in) of
                          Some e \<Rightarrow> (d, Inl e)
                        | None \<Rightarrow>
                           (case add_lines (new_order d user idempotency_key now payment_provider)
                                   prods (oc_items order_in) of
                              Inl e \<Rightarrow> (d, Inl e)
                            | Inr (order1, prods') \<Rightarrow>
                               (let order = order1 \<lparr> o_notes := oc_notes order_in \<rparr> in
                                (case commit_order d order prods' of
                                   Inl e \<Rightarrow> (d, Inl e)
                                 | Inr d' \<Rightarrow>
                                    (case scalar_one
                                            (filter (\<lambda>row. o_id row = o_id order) (orders d')) of
                                       Inl e \<Rightarrow> (d', Inl e)
                                     | Inr refreshed \<Rightarrow> (d', Inr (refreshed, True))))))))))"

text \<open>\<open>get_order_by_id\<close>.\<close>

definition get_order_by_id :: "db \<Rightarrow> int \<Rightarrow> error + Order option" where
  "get_order_by_id d order_id =
     scalar_one_or_none (filter (\<lambda>row. o_id row = order_id) (orders d))"

text \<open>
  Writing attributes of a loaded order: \<open>db.commit()\<close> updates, in the row that has the
  primary key of the object, the attributes that were assigned, and \<open>db.refresh(order)\<close>
  reads that row back.
\<close>

definition write_order :: "db \<Rightarrow> int \<Rightarrow> (Order \<Rightarrow> Order) \<Rightarrow> db" where
  "write_order d order_id f =
     d \<lparr> orders := map (\<lambda>row. if o_id row = order_id then f row else row) (orders d) \<rparr>"

definition refresh :: "db \<Rightarrow> Order \<Rightarrow> error + Order" where
  "refresh d order = scalar_one (filter (\<lambda>row. o_id row = o_id order) (orders d))"

text \<open>\<open>update_order_status\<close>.\<close>

definition update_order_status ::
  "db \<Rightarrow> Order \<Rightarrow> OrderStatus \<Rightarrow> string option \<Rightarrow> db \<times> (error + Order)" where
  "update_order_status d order status reference =
     (let d' = write_order d (o_id order)
                 (\<lambda>row. row \<lparr> o_status := status,
                               o_payment_reference :=
                                 (if truthy reference then reference
                                  else o_payment_reference row) \<rparr>)
      in (d', refresh d' order))"

section \<open>The payment service (app/services/payments.py)\<close>

record PaymentInitRequest =
  pir_order_id :: int
  pir_provider :: string
  pir_success_url :: string
  pir_cancel_url :: string

record PaymentSession =
  checkout_url :: string
  payment_reference :: string

text \<open>
  The body of the generic webhook. The entries of \<open>payload\<close> that the service reads are
  strings or null, as the column they are stored in.
\<close>

record PaymentWebhookPayload =
  wh_provider :: string
  wh_order_id :: int
  wh_event :: string
  wh_signature :: string
  wh_payload :: "string \<rightharpoonup> string option"

text \<open>The Stripe event, as far as \<open>handle_stripe_event\<close> reads it.\<close>

record StripeObject =
  so_metadata :: "(string \<rightharpoonup> string) option"
  so_client_reference_id :: "string option"
  so_payment_intent :: "string option"
  so_id :: "string option"

record StripeEvent =
  se_type :: "string option"
  se_object :: "StripeObject option"

text \<open>What \<open>stripe.checkout.Session.create\<close> gave back, as far as the service reads it.\<close>

record StripeSession =
  ss_id :: "string option"
  ss_url :: "string option"

subsection \<open>Strings\<close>

text \<open>\<open>str.lower\<close> on the code points below 256.\<close>

definition lower_char :: "char \<Rightarrow> char" where
  "lower_char c = (let n = (of_char c :: nat) in
     if (65 \<le> n \<and> n \<le> 90) \<or> (192 \<le> n \<and> n \<le> 222 \<and> n \<noteq> 215)
     then char_of (n + 32) else c)"

definition lower :: "string \<Rightarrow> string" where
  "lower s = map lower_char s"

definition is_digit :: "char \<Rightarrow> bool" where
  "is_digit c = (let n = (of_char c :: nat) in 48 \<le> n \<and> n \<le> 57)"

definition digit_val :: "char \<Rightarrow> int" where
  "digit_val c = int (of_char c) - 48"

text \<open>\<open>str(n)\<close> for an integer.\<close>

fun str_nat :: "nat \<Rightarrow> string" where
  "str_nat n = (if n < 10 then [char_of (48 + n)]
                else str_nat (n div 10) @ [char_of (48 + n mod 10)])"

definition str_int :: "int \<Rightarrow> string" where
  "str_int i = (if i < 0 then CHR ''-'' # str_nat (nat (- i)) else str_nat (nat i))"

text \<open>
  \<open>int(s)\<close> for a string: surrounding whitespace, an optional sign, decimal digits with
  single underscores between them. \<open>None\<close> stands for the \<open>ValueError\<close>. The
  whitespace that \<open>int\<close> skips is narrower than that of \<open>str.strip\<close>: of the code
  points below 256 it is 9 to 13, 32, 133 and 160; the separators 28 to 31 make \<open>int\<close>
  raise.
\<close>

definition is_int_space :: "char \<Rightarrow> bool" where
  "is_int_space c = (let n = (of_char c :: nat) in
     (9 \<le> n \<and> n \<le> 13) \<or> n = 32 \<or> n = 133 \<or> n = 160)"

fun parse_digits :: "int \<Rightarrow> string \<Rightarrow> int option" where
  "parse_digits acc [] = Some acc"
| "parse_digits acc [c] = (if is_digit c then Some (10 * acc + digit_val c) else None)"
| "parse_digits acc (c # c' # cs) =
     (if is_digit c then parse_digits (10 * acc + digit_val c) (c' # cs)
      else if c = CHR ''_'' \<and> is_digit c' then parse_digits (10 * acc + digit_val c') cs
      else None)"

definition py_int :: "string \<Rightarrow> int option" where
  "py_int s =
     (let t = rev (dropWhile is_int_space (rev (dropWhile is_int_space s)));
          negative = (t \<noteq> [] \<and> hd t = CHR ''-'');
          body = (if t \<noteq> [] \<and> (hd t = CHR ''-'' \<or> hd t = CHR ''+'') then tl t else t)
      in case body of
           [] \<Rightarrow> None
         | c # cs \<Rightarrow>
             if is_digit c
             then map_option (\<lambda>n. if negative then - n else n) (parse_digits (digit_val c) cs)
             else None)"

subsection \<open>\<open>init_payment_session\<close>\<close>

text \<open>
  Whether the \<open>stripe\<close> module was imported, the setting \<open>stripe_secret_key\<close> and the
  outcome of the call to the provider (the text of the exception, or the session) are
  arguments. The two assignments to the order with their commit and refresh (lines 64 to
  67 and 75 to 78) are \<open>set_payment\<close>.
\<close>

definition set_payment :: "db \<Rightarrow> Order \<Rightarrow> string \<Rightarrow> string option \<Rightarrow> db \<times> (error + Order)" where
  "set_payment d order provider reference =
     (let d' = write_order d (o_id order)
                 (\<lambda>row. row \<lparr> o_payment_provider := Some provider,
                               o_payment_reference := reference \<rparr>)
      in (d', refresh d' order))"

definition init_payment_session ::
  "bool \<Rightarrow> string option \<Rightarrow> string + StripeSession \<Rightarrow> db \<Rightarrow> Order \<Rightarrow> PaymentInitRequest
     \<Rightarrow> db \<times> (error + PaymentSession)" where
  "init_payment_session stripe_imported stripe_secret_key stripe_create d order request =
     (if o_status order \<notin> {PENDING, DRAFT}
      then (d, Inl (PaymentProviderError ''Order already processed''))
      else
        let provider = lower (pir_provider request) in
        if provider = ''stripe''
        then
          (if \<not> stripe_imported \<or> \<not> truthy stripe_secret_key
           then (d, Inl (PaymentProviderError ''Stripe not configured''))
           else
             (case stripe_create of
                Inl exc \<Rightarrow> (d, Inl (PaymentProviderError (''Stripe error: '' @ exc)))
              | Inr session \<Rightarrow>
                 (case set_payment d order provider (ss_id session) of
                    (d', Inl e) \<Rightarrow> (d', Inl e)
                  | (d', Inr order') \<Rightarrow>
                     (case ss_url session of
                        None \<Rightarrow> (d', Inl (PaymentProviderError ''Stripe session missing URL''))
                      | Some url \<Rightarrow>
                         if url = []
                         then (d', Inl (PaymentProviderError ''Stripe session missing URL''))
                         else
                           (case o_payment_reference order' of
                              None \<Rightarrow> (d', Inl ValidationError)
                            | Some r \<Rightarrow>
                               (d', Inr \<lparr> checkout_url = url, payment_reference = r \<rparr>))))))
        else
          (case set_payment d order provider
                  (Some (provider @ ''_session_'' @ str_int (o_id order))) of
             (d', Inl e) \<Rightarrow> (d', Inl e)
           | (d', Inr order') \<Rightarrow>
              (case o_payment_reference order' of
                 None \<Rightarrow> (d', Inl ValidationError)
               | Some r \<Rightarrow>
                  (d', Inr \<lparr> checkout_url = ''https://checkout.'' @ provider
                                               @ ''.sandbox/session/'' @ r,
                             payment_reference = r \<rparr>))))"

subsection \<open>\<open>handle_webhook\<close>\<close>

definition handle_webhook ::
  "db \<Rightarrow> PaymentWebhookPayload \<Rightarrow> db \<times> (error + Order \<times> OrderStatus)" where
  "handle_webhook d data =
     (case get_order_by_id d (wh_order_id data) of
        Inl e \<Rightarrow> (d, Inl e)
      | Inr None \<Rightarrow> (d, Inl (PaymentProviderError ''Order not found''))
      | Inr (Some order) \<Rightarrow>
          if o_payment_provider order \<noteq> Some (wh_provider data)
          then (d, Inl (PaymentProviderError ''Provider mismatch''))
          else
            let event = wh_event data in
            if event = ''payment_succeeded''
            then (case update_order_status d order PAID
                         (case wh_payload data ''payment_intent'' of
                            None \<Rightarrow> o_payment_reference order
                          | Some v \<Rightarrow> v) of
                    (d', Inl e) \<Rightarrow> (d', Inl e)
                  | (d', Inr order') \<Rightarrow> (d', Inr (order', o_status order')))
            else if event = ''payment_failed''
            then (case update_order_status d order CANCELLED None of
                    (d', Inl e) \<Rightarrow> (d', Inl e)
                  | (d', Inr order') \<Rightarrow> (d', Inr (order', o_status order')))
            else if event = ''payment_refunded''
            then (case update_order_status d order REFUNDED None of
                    (d', Inl e) \<Rightarrow> (d', Inl e)
                  | (d', Inr order') \<Rightarrow> (d', Inr (order', o_status order')))
            else (d, Inl (PaymentProviderError ''Unknown event'')))"

subsection \<open>\<open>handle_stripe_event\<close>\<close>

text \<open>The order id of a Stripe event (lines 119 to 133): metadata first, then the client reference.\<close>

definition stripe_order_id :: "StripeObject option \<Rightarrow> int option" where
  "stripe_order_id obj =
     (let metadata = (case obj of None \<Rightarrow> Map.empty
                      | Some ob \<Rightarrow> (case so_metadata ob of None \<Rightarrow> Map.empty | Some m \<Rightarrow> m));
          order_id = (case metadata ''order_id'' of None \<Rightarrow> None | Some v \<Rightarrow> py_int v);
          client_reference_id = (case obj of None \<Rightarrow> None | Some ob \<Rightarrow> so_client_reference_id ob)
      in if order_id = None \<and> truthy client_reference_id
         then (case client_reference_id of None \<Rightarrow> None | Some v \<Rightarrow> py_int v)
         else order_id)"

text \<open>\<open>obj.get("payment_intent") or obj.get("id")\<close>, then \<open>str(reference) if reference else None\<close>.\<close>

definition stripe_reference :: "StripeObject option \<Rightarrow> string option" where
  "stripe_reference obj =
     (let payment_intent = (case obj of None \<Rightarrow> None | Some ob \<Rightarrow> so_payment_intent ob);
          ident = (case obj of None \<Rightarrow> None | Some ob \<Rightarrow> so_id ob);
          reference = (if truthy payment_intent then payment_intent else ident)
      in if truthy reference then reference else None)"

definition handle_stripe_event ::
  "db \<Rightarrow> StripeEvent \<Rightarrow> db \<times> (error + Order \<times> OrderStatus)" where
  "handle_stripe_event d event =
     (let event_type = se_type event; obj = se_object event in
      case stripe_order_id obj of
        None \<Rightarrow> (d, Inl (PaymentProviderError ''Stripe webhook missing order reference''))
      | Some order_id \<Rightarrow>
         (case get_order_by_id d order_id of
            Inl e \<Rightarrow> (d, Inl e)
          | Inr None \<Rightarrow> (d, Inl (PaymentProviderError ''Order not found''))
          | Inr (Some order) \<Rightarrow>
             if event_type = Some ''checkout.session.completed''
             then (case update_order_status d order PAID (stripe_reference obj) of
                     (d', Inl e) \<Rightarrow> (d', Inl e)
                   | (d', Inr updated) \<Rightarrow> (d', Inr (updated, o_status updated)))
             else if event_type \<in> {Some ''charge.refunded'', Some ''payment_intent.canceled''}
             then (case update_order_status d order REFUNDED None of
                     (d', Inl e) \<Rightarrow> (d', Inl e)
                   | (d', Inr updated) \<Rightarrow> (d', Inr (updated, o_status updated)))
             else if event_type \<in> {Some ''checkout.session.expired'',
                                     Some ''payment_intent.payment_failed''}
             then (case update_order_status d order CANCELLED None of
                     (d', Inl e) \<Rightarrow> (d', Inl e)
                   | (d', Inr updated) \<Rightarrow> (d', Inr (updated, o_status updated)))
             else (d, Inl (PaymentProviderError
                             (''Unhandled Stripe event: ''
                                @ (case event_type of None \<Rightarrow> ''None'' | Some t \<Rightarrow> t))))))"

section \<open>Histories\<close>


section \<open>Concrete data\<close>

text \<open>
  The shop of the example in the specification: product 1 costs 500 and is on sale for
  400, product 2 costs 1000 and has no promotional price. Product 3 is a draft that is
  not published and not in stock. No order was placed yet.
\<close>

definition product_a :: Product where
  "product_a = \<lparr> p_title = ''A'', p_impact_co2_g = Some 10, p_price_cents = 500,
                 p_promo_price_cents = Some 400, p_stock = 3, p_status = PUBLISHED,
                 p_is_published = True \<rparr>"

definition product_b :: Product where
  "product_b = \<lparr> p_title = ''B'', p_impact_co2_g = None, p_price_cents = 1000,
                 p_promo_price_cents = None, p_stock = 5, p_status = PUBLISHED,
                 p_is_published = True \<rparr>"

definition product_c :: Product where
  "product_c = \<lparr> p_title = ''C'', p_impact_co2_g = None, p_price_cents = 700,
                 p_promo_price_cents = None, p_stock = 0, p_status = PRODUCT_DRAFT,
                 p_is_published = False \<rparr>"

definition shop :: db where
  "shop = \<lparr> products = [1 \<mapsto> product_a, 2 \<mapsto> product_b, 3 \<mapsto> product_c], orders = [] \<rparr>"

definition alice :: User where
  "alice = \<lparr> u_id = 7 \<rparr>"

definition bob :: User where
  "bob = \<lparr> u_id = 8 \<rparr>"

text \<open>Two of product 1 and one of product 2.\<close>

definition basket :: OrderCreate where
  "basket = \<lparr> oc_items = [\<lparr> item_product_id = 1, item_quantity = 2 \<rparr>,
                           \<lparr> item_product_id = 2, item_quantity = 1 \<rparr>],
              oc_notes = None \<rparr>"

text \<open>Product 1 twice, two of it each time, while three are in stock.\<close>

definition double_basket :: OrderCreate where
  "double_basket = \<lparr> oc_items = [\<lparr> item_product_id = 1, item_quantity = 2 \<rparr>,
                                  \<lparr> item_product_id = 1, item_quantity = 2 \<rparr>],
                     oc_notes = None \<rparr>"

text \<open>The order that the basket gives, placed by user 7 under the key \<open>key-1\<close>.\<close>

definition basket_order :: Order where
  "basket_order =
     \<lparr> o_id = 1, o_user_id = 7, o_status = PENDING, o_currency = ''EUR'',
       o_total_amount_cents = 1800, o_total_items = 3, o_total_impact_co2_g = 20,
       o_payment_reference = None, o_payment_provider = Some ''manual'',
       o_idempotency_key = Some ''key-1'', o_placed_at = Some 0, o_notes = None,
       o_lines =
         [\<lparr> l_product_id = Some 1, l_product_title = ''A'', l_quantity = 2,
             l_unit_price_cents = 400, l_reference_price_cents = 500,
             l_subtotal_cents = 800, l_impact_co2_g = Some 20 \<rparr>,
          \<lparr> l_product_id = Some 2, l_product_title = ''B'', l_quantity = 1,
             l_unit_price_cents = 1000, l_reference_price_cents = 1000,
             l_subtotal_cents = 1000, l_impact_co2_g = None \<rparr>] \<rparr>"

text \<open>The shop after that order.\<close>

definition shop_sold :: db where
  "shop_sold = \<lparr> products = [1 \<mapsto> product_a \<lparr> p_stock := 1 \<rparr>,
                              2 \<mapsto> product_b \<lparr> p_stock := 4 \<rparr>,
                              3 \<mapsto> product_c],
                  orders = [basket_order] \<rparr>"

text \<open>One of product 1.\<close>

definition small_basket :: OrderCreate where
  "small_basket = \<lparr> oc_items = [\<lparr> item_product_id = 1, item_quantity = 1 \<rparr>], oc_notes = None \<rparr>"

text \<open>A basket that names a product that does not exist.\<close>

definition missing_basket :: OrderCreate where
  "missing_basket = \<lparr> oc_items = [\<lparr> item_product_id = 1, item_quantity = 1 \<rparr>,
                                   \<lparr> item_product_id = 9, item_quantity = 1 \<rparr>],
                      oc_notes = None \<rparr>"

text \<open>
  A basket whose second line asks for five of the draft, which is not in stock either,
  and a basket whose second line asks for more of product 1 than is in stock.
\<close>

definition draft_basket :: OrderCreate where
  "draft_basket = \<lparr> oc_items = [\<lparr> item_product_id = 2, item_quantity = 1 \<rparr>,
                                 \<lparr> item_product_id = 3, item_quantity = 5 \<rparr>,
                                 \<lparr> item_product_id = 1, item_quantity = 99 \<rparr>],
                    oc_notes = None \<rparr>"

definition large_basket :: OrderCreate where
  "large_basket = \<lparr> oc_items = [\<lparr> item_product_id = 2, item_quantity = 1 \<rparr>,
                                 \<lparr> item_product_id = 1, item_quantity = 4 \<rparr>],
                    oc_notes = None \<rparr>"


text \<open>
  A generic webhook that reports the payment of order 1, a Stripe event that reports a
  cancelled payment intent for it, and a request for a sandbox session.
\<close>

definition paid_hook :: PaymentWebhookPayload where
  "paid_hook = \<lparr> wh_provider = ''manual'', wh_order_id = 1, wh_event = ''payment_succeeded'',
                 wh_signature = ''signature'', wh_payload = [''payment_intent'' \<mapsto> Some ''pi_42''] \<rparr>"

definition canceled_event :: StripeEvent where
  "canceled_event =
     \<lparr> se_type = Some ''payment_intent.canceled'',
       se_object = Some \<lparr> so_metadata = Some [''order_id'' \<mapsto> ''1''],
                          so_client_reference_id = None,
                          so_payment_intent = None,
                          so_id = Some ''pi_42'' \<rparr> \<rparr>"

definition sandbox_request :: PaymentInitRequest where
  "sandbox_request = \<lparr> pir_order_id = 1, pir_provider = ''paygreen'',
                       pir_success_url = ''https://shop.example/ok'',
                       pir_cancel_url = ''https://shop.example/cancel'' \<rparr>"




section \<open>Lemmas on \<open>create_order\<close>\<close>

lemma new_line_sel:
  "l_quantity (new_line pid p it) = item_quantity it"
  "l_unit_price_cents (new_line pid p it) =
     (case p_promo_price_cents p of Some promo \<Rightarrow> promo | None \<Rightarrow> p_price_cents p)"
  "l_subtotal_cents (new_line pid p it) =
     (case p_promo_price_cents p of Some promo \<Rightarrow> promo | None \<Rightarrow> p_price_cents p) * item_quantity it"
  "l_reference_price_cents (new_line pid p it) = p_price_cents p"
  "l_product_id (new_line pid p it) = Some pid"
  by (simp_all add: new_line_def Let_def split: option.splits)

lemma new_line_stock: "new_line pid (p \<lparr> p_stock := s \<rparr>) it = new_line pid p it"
  by (cases "p_promo_price_cents p") (simp_all add: new_line_def Let_def)

lemma add_lines_closed:
  "\<forall>it \<in> set its. prods (item_product_id it) \<noteq> None \<Longrightarrow>
   add_lines ord prods its =
     Inr (ord \<lparr> o_lines := o_lines ord
                    @ map (\<lambda>it. new_line (item_product_id it) (the (prods (item_product_id it))) it) its,
                o_total_amount_cents := o_total_amount_cents ord
                    + sum_list (map (\<lambda>it. l_subtotal_cents
                         (new_line (item_product_id it) (the (prods (item_product_id it))) it)) its),
                o_total_items := o_total_items ord + sum_list (map item_quantity its),
                o_total_impact_co2_g := o_total_impact_co2_g ord
                    + sum_list (map (\<lambda>it. (case p_impact_co2_g (the (prods (item_product_id it))) of
                                               None \<Rightarrow> 0 | Some g \<Rightarrow> g) * item_quantity it) its) \<rparr>,
          \<lambda>i. map_option (\<lambda>p. p \<lparr> p_stock := p_stock p
                   - sum_list (map item_quantity (filter (\<lambda>it. item_product_id it = i) its)) \<rparr>)
                 (prods i))"
proof (induction its arbitrary: ord prods)
  case Nil
  then show ?case by (simp add: fun_eq_iff option.map_ident map_option.identity)
next
  case (Cons it its)
  obtain product where p: "prods (item_product_id it) = Some product"
    using Cons.prems by auto
  let ?prods = "prods(item_product_id it \<mapsto> product \<lparr> p_stock := p_stock product - item_quantity it \<rparr>)"
  have dom: "\<forall>x \<in> set its. ?prods (item_product_id x) \<noteq> None"
    using Cons.prems by auto
  have nl: "\<And>x. new_line (item_product_id x) (the (?prods (item_product_id x))) x
              = new_line (item_product_id x) (the (prods (item_product_id x))) x"
    using p by (auto simp: new_line_stock)
  have co: "\<And>x. p_impact_co2_g (the (?prods (item_product_id x)))
              = p_impact_co2_g (the (prods (item_product_id x)))"
    using p by auto
  show ?case
    apply (simp add: p Let_def Cons.IH [OF dom] nl co del: fun_upd_apply)
    apply (auto simp: fun_eq_iff p algebra_simps)
    done
qed


lemma check_items_None_iff:
  "check_items prods its = None \<longleftrightarrow>
     (\<forall>it \<in> set its. \<exists>p. prods (item_product_id it) = Some p \<and> p_status p = PUBLISHED
         \<and> p_is_published p \<and> item_quantity it \<le> p_stock p)"
  by (induction its) (auto split: option.splits)

lemma next_order_id_fresh: "row \<in> set os \<Longrightarrow> o_id row < next_order_id os"
  unfolding next_order_id_def by (induction os) auto

lemma filter_new_id:
  assumes "o_id new = next_order_id os"
  shows "filter (\<lambda>row. o_id row = o_id new) (os @ [new]) = [new]"
proof -
  have "\<And>row. row \<in> set os \<Longrightarrow> o_id row \<noteq> o_id new"
    using next_order_id_fresh [of _ os] assms by fastforce
  then have "filter (\<lambda>row. o_id row = o_id new) os = []"
    by (simp add: filter_empty_conv)
  then show ?thesis by simp
qed


lemma fetch_products_requested:
  "it \<in> set (oc_items oin) \<Longrightarrow>
   fetch_products d (product_ids oin) (item_product_id it) = products d (item_product_id it)"
  by (simp add: fetch_products_def product_ids_def)

lemma product_ids_empty: "product_ids oin = {} \<longleftrightarrow> oc_items oin = []"
  by (simp add: product_ids_def)

lemma missing_ids_fetch:
  "missing_ids (product_ids oin) (fetch_products d (product_ids oin))
     = {pid \<in> product_ids oin. products d pid = None}"
  by (auto simp: missing_ids_def fetch_products_def)

lemma missing_ids_empty:
  "missing_ids (product_ids oin) (fetch_products d (product_ids oin)) = {}
     \<longleftrightarrow> (\<forall>it \<in> set (oc_items oin). products d (item_product_id it) \<noteq> None)"
  unfolding missing_ids_fetch by (auto simp: product_ids_def)

lemma stock_merge:
  "products d ++ (\<lambda>i. map_option (\<lambda>p. p \<lparr> p_stock := p_stock p
                   - sum_list (map item_quantity (filter (\<lambda>it. item_product_id it = i) (oc_items oin))) \<rparr>)
                 (fetch_products d (product_ids oin) i))
   = (\<lambda>i. map_option (\<lambda>p. p \<lparr> p_stock := p_stock p
                   - sum_list (map item_quantity (filter (\<lambda>it. item_product_id it = i) (oc_items oin))) \<rparr>)
                 (products d i))"
proof
  fix i
  let ?its = "oc_items oin"
  show "(products d ++ (\<lambda>i. map_option (\<lambda>p. p \<lparr> p_stock := p_stock p
                   - sum_list (map item_quantity (filter (\<lambda>it. item_product_id it = i) ?its)) \<rparr>)
                 (fetch_products d (product_ids oin) i))) i
   = map_option (\<lambda>p. p \<lparr> p_stock := p_stock p
                   - sum_list (map item_quantity (filter (\<lambda>it. item_product_id it = i) ?its)) \<rparr>)
                 (products d i)"
  proof (cases "i \<in> product_ids oin")
    case True
    then show ?thesis
      by (cases "products d i") (simp_all add: fetch_products_def map_add_def)
  next
    case False
    then have "filter (\<lambda>it. item_product_id it = i) ?its = []"
      by (auto simp: filter_empty_conv product_ids_def)
    with False show ?thesis
      by (cases "products d i") (simp_all add: fetch_products_def map_add_def)
  qed
qed

lemma create_order_empty_key:
  "key = [] \<or> strip key = [] \<Longrightarrow>
   create_order d uuid now user oin key pp
     = (d, Inl (OrderValidationError ''Idempotency-Key header is required''))"
  by (auto simp: create_order_def)

lemma create_order_lookup_error:
  "key \<noteq> [] \<Longrightarrow> strip key \<noteq> [] \<Longrightarrow> existing_order d user (resolve_key uuid key) = Inl e \<Longrightarrow>
   create_order d uuid now user oin key pp = (d, Inl e)"
  by (simp add: create_order_def)

lemma create_order_existing:
  "key \<noteq> [] \<Longrightarrow> strip key \<noteq> [] \<Longrightarrow>
   existing_order d user (resolve_key uuid key) = Inr (Some existing) \<Longrightarrow>
   create_order d uuid now user oin key pp = (d, Inr (existing, False))"
  by (simp add: create_order_def)

lemma create_order_no_items:
  "key \<noteq> [] \<Longrightarrow> strip key \<noteq> [] \<Longrightarrow> existing_order d user (resolve_key uuid key) = Inr None \<Longrightarrow>
   product_ids oin = {} \<Longrightarrow>
   create_order d uuid now user oin key pp
     = (d, Inl (OrderValidationError ''Order requires at least one product''))"
  by (simp add: create_order_def)

lemma create_order_missing:
  "key \<noteq> [] \<Longrightarrow> strip key \<noteq> [] \<Longrightarrow> existing_order d user (resolve_key uuid key) = Inr None \<Longrightarrow>
   product_ids oin \<noteq> {} \<Longrightarrow>
   missing_ids (product_ids oin) (fetch_products d (product_ids oin)) \<noteq> {} \<Longrightarrow>
   create_order d uuid now user oin key pp
     = (d, Inl (ProductUnavailableError (Products_not_found (sorted_list_of_set
          (missing_ids (product_ids oin) (fetch_products d (product_ids oin)))))))"
  by (simp add: create_order_def Let_def)

lemma create_order_check_fails:
  "key \<noteq> [] \<Longrightarrow> strip key \<noteq> [] \<Longrightarrow> existing_order d user (resolve_key uuid key) = Inr None \<Longrightarrow>
   product_ids oin \<noteq> {} \<Longrightarrow>
   missing_ids (product_ids oin) (fetch_products d (product_ids oin)) = {} \<Longrightarrow>
   check_items (fetch_products d (product_ids oin)) (oc_items oin) = Some e \<Longrightarrow>
   create_order d uuid now user oin key pp = (d, Inl e)"
  by (simp add: create_order_def Let_def)

lemma add_lines_new_order:
  fixes now :: int and pp :: "string option" and k :: string and user :: User
  assumes "missing_ids (product_ids oin) (fetch_products d (product_ids oin)) = {}"
  defines "placed \<equiv>
     \<lparr> o_id = next_order_id (orders d),
       o_user_id = u_id user,
       o_status = PENDING,
       o_currency = ''EUR'',
       o_total_amount_cents = sum_list (map (\<lambda>it. l_subtotal_cents
             (new_line (item_product_id it) (the (products d (item_product_id it))) it)) (oc_items oin)),
       o_total_items = sum_list (map item_quantity (oc_items oin)),
       o_total_impact_co2_g = sum_list (map (\<lambda>it.
            (case p_impact_co2_g (the (products d (item_product_id it))) of
                 None \<Rightarrow> 0 | Some g \<Rightarrow> g) * item_quantity it) (oc_items oin)),
       o_payment_reference = None,
       o_payment_provider = (if truthy pp then pp else None),
       o_idempotency_key = Some k,
       o_placed_at = Some now,
       o_notes = None,
       o_lines = map (\<lambda>it. new_line (item_product_id it)
                         (the (products d (item_product_id it))) it) (oc_items oin) \<rparr>"
  shows "add_lines (new_order d user k now pp) (fetch_products d (product_ids oin)) (oc_items oin)
            = Inr (placed,
                   \<lambda>i. map_option (\<lambda>p. p \<lparr> p_stock := p_stock p
                     - sum_list (map item_quantity (filter (\<lambda>it. item_product_id it = i) (oc_items oin))) \<rparr>)
                   (fetch_products d (product_ids oin) i))"
proof -
  let ?its = "oc_items oin"
  let ?P = "fetch_products d (product_ids oin)"
  have dom': "\<forall>it \<in> set ?its. ?P (item_product_id it) \<noteq> None"
    using assms(1) by (simp add: missing_ids_empty fetch_products_requested)
  have m1: "map (\<lambda>it. new_line (item_product_id it) (the (?P (item_product_id it))) it) ?its
          = map (\<lambda>it. new_line (item_product_id it) (the (products d (item_product_id it))) it) ?its"
    by (rule map_cong) (simp_all add: fetch_products_requested)
  have m2: "map (\<lambda>it. l_subtotal_cents (new_line (item_product_id it)
              (the (?P (item_product_id it))) it)) ?its
          = map (\<lambda>it. l_subtotal_cents (new_line (item_product_id it)
              (the (products d (item_product_id it))) it)) ?its"
    by (rule map_cong) (simp_all add: fetch_products_requested)
  have m3: "map (\<lambda>it. (case p_impact_co2_g (the (?P (item_product_id it))) of
                 None \<Rightarrow> 0 | Some g \<Rightarrow> g) * item_quantity it) ?its
          = map (\<lambda>it. (case p_impact_co2_g (the (products d (item_product_id it))) of
                 None \<Rightarrow> 0 | Some g \<Rightarrow> g) * item_quantity it) ?its"
    by (rule map_cong) (simp_all add: fetch_products_requested)
  show ?thesis
    by (simp add: add_lines_closed [OF dom'] m1 m2 m3 new_order_def placed_def)
qed

lemma commit_order_taken:
  "\<exists>row \<in> set (orders d). o_idempotency_key row = Some k \<Longrightarrow> o_idempotency_key order = Some k \<Longrightarrow>
   commit_order d order prods = Inl IntegrityError"
  by (auto simp: commit_order_def)

lemma create_order_key_taken:
  assumes "key \<noteq> []" "strip key \<noteq> []" "existing_order d user (resolve_key uuid key) = Inr None"
    and "product_ids oin \<noteq> {}"
    and "missing_ids (product_ids oin) (fetch_products d (product_ids oin)) = {}"
    and "check_items (fetch_products d (product_ids oin)) (oc_items oin) = None"
    and "\<exists>row \<in> set (orders d). o_idempotency_key row = Some (resolve_key uuid key)"
  shows "create_order d uuid now user oin key pp = (d, Inl IntegrityError)"
proof -
  note al = add_lines_new_order [OF assms(5), of user "resolve_key uuid key" now pp]
  show ?thesis
    using assms(1-6) unfolding create_order_def Let_def
    by (simp add: al commit_order_taken [OF assms(7)])
qed

lemma create_order_placed:
  fixes now :: int and pp :: "string option"
  assumes "key \<noteq> []" "strip key \<noteq> []" "existing_order d user (resolve_key uuid key) = Inr None"
    and "product_ids oin \<noteq> {}"
    and "missing_ids (product_ids oin) (fetch_products d (product_ids oin)) = {}"
    and "check_items (fetch_products d (product_ids oin)) (oc_items oin) = None"
    and "\<forall>row \<in> set (orders d). o_idempotency_key row \<noteq> Some (resolve_key uuid key)"
  defines "placed \<equiv>
     \<lparr> o_id = next_order_id (orders d),
       o_user_id = u_id user,
       o_status = PENDING,
       o_currency = ''EUR'',
       o_total_amount_cents = sum_list (map (\<lambda>it. l_subtotal_cents
             (new_line (item_product_id it) (the (products d (item_product_id it))) it)) (oc_items oin)),
       o_total_items = sum_list (map item_quantity (oc_items oin)),
       o_total_impact_co2_g = sum_list (map (\<lambda>it.
            (case p_impact_co2_g (the (products d (item_product_id it))) of
                 None \<Rightarrow> 0 | Some g \<Rightarrow> g) * item_quantity it) (oc_items oin)),
       o_payment_reference = None,
       o_payment_provider = (if truthy pp then pp else None),
       o_idempotency_key = Some (resolve_key uuid key),
       o_placed_at = Some now,
       o_notes = oc_notes oin,
       o_lines = map (\<lambda>it. new_line (item_product_id it)
                         (the (products d (item_product_id it))) it) (oc_items oin) \<rparr>"
  shows "create_order d uuid now user oin key pp =
     (\<lparr> products = (\<lambda>i. map_option (\<lambda>p. p \<lparr> p_stock := p_stock p
              - sum_list (map item_quantity
                   (filter (\<lambda>it. item_product_id it = i) (oc_items oin))) \<rparr>) (products d i)),
         orders = orders d @ [placed] \<rparr>,
      Inr (placed, True))"
proof -
  let ?its = "oc_items oin"
  let ?S = "\<lambda>i. map_option (\<lambda>p. p \<lparr> p_stock := p_stock p
                     - sum_list (map item_quantity (filter (\<lambda>it. item_product_id it = i) ?its)) \<rparr>)
                   (fetch_products d (product_ids oin) i)"
  note al = add_lines_new_order [OF assms(5), of user "resolve_key uuid key" now pp]
  have id: "o_id placed = next_order_id (orders d)"
    by (simp add: placed_def)
  have key: "o_idempotency_key placed = Some (resolve_key uuid key)"
    by (simp add: placed_def)
  have nc: "\<not> (\<exists>row \<in> set (orders d). o_idempotency_key row \<noteq> None
            \<and> o_idempotency_key row = o_idempotency_key placed)"
    using assms(7) by (auto simp: key)
  have cm: "commit_order d placed ?S
      = Inr \<lparr> products = (\<lambda>i. map_option (\<lambda>p. p \<lparr> p_stock := p_stock p
              - sum_list (map item_quantity
                   (filter (\<lambda>it. item_product_id it = i) ?its)) \<rparr>) (products d i)),
         orders = orders d @ [placed] \<rparr>"
    unfolding commit_order_def using nc by (simp only: if_False stock_merge)
  have step: "(case add_lines (new_order d user (resolve_key uuid key) now pp)
                  (fetch_products d (product_ids oin)) ?its of
                 Inl e \<Rightarrow> (d, Inl e)
               | Inr (order1, prods') \<Rightarrow>
                    (case commit_order d (order1 \<lparr> o_notes := oc_notes oin \<rparr>) prods' of
                       Inl e \<Rightarrow> (d, Inl e)
                     | Inr d' \<Rightarrow>
                        (case scalar_one (filter (\<lambda>row. o_id row
                                 = o_id (order1 \<lparr> o_notes := oc_notes oin \<rparr>)) (orders d')) of
                           Inl e \<Rightarrow> (d', Inl e)
                         | Inr refreshed \<Rightarrow> (d', Inr (refreshed, True)))))
       = (\<lparr> products = (\<lambda>i. map_option (\<lambda>p. p \<lparr> p_stock := p_stock p
              - sum_list (map item_quantity
                   (filter (\<lambda>it. item_product_id it = i) ?its)) \<rparr>) (products d i)),
         orders = orders d @ [placed] \<rparr>, Inr (placed, True))"
  proof -
    have pl: "\<lparr> o_id = next_order_id (orders d),
       o_user_id = u_id user,
       o_status = PENDING,
       o_currency = ''EUR'',
       o_total_amount_cents = sum_list (map (\<lambda>it. l_subtotal_cents
             (new_line (item_product_id it) (the (products d (item_product_id it))) it)) (oc_items oin)),
       o_total_items = sum_list (map item_quantity (oc_items oin)),
       o_total_impact_co2_g = sum_list (map (\<lambda>it.
            (case p_impact_co2_g (the (products d (item_product_id it))) of
                 None \<Rightarrow> 0 | Some g \<Rightarrow> g) * item_quantity it) (oc_items oin)),
       o_payment_reference = None,
       o_payment_provider = (if truthy pp then pp else None),
       o_idempotency_key = Some (resolve_key uuid key),
       o_placed_at = Some now,
       o_notes = None,
       o_lines = map (\<lambda>it. new_line (item_product_id it)
                         (the (products d (item_product_id it))) it) (oc_items oin) \<rparr>
         \<lparr> o_notes := oc_notes oin \<rparr> = placed"
      by (simp add: placed_def)
    show ?thesis
      unfolding al
      by (simp only: sum.case prod.case Let_def pl cm filter_new_id [OF id] scalar_one.simps
            db.select_convs)
  qed
  show ?thesis
    using assms(1-6) unfolding create_order_def Let_def by (simp add: step)
qed

lemma create_order_cases:
  obtains
    (rejected) "key = [] \<or> strip key = []"
  | (lookup_error) e where "key \<noteq> []" "strip key \<noteq> []"
      "existing_order d user (resolve_key uuid key) = Inl e"
  | (existing) ex where "key \<noteq> []" "strip key \<noteq> []"
      "existing_order d user (resolve_key uuid key) = Inr (Some ex)"
  | (no_items) "key \<noteq> []" "strip key \<noteq> []"
      "existing_order d user (resolve_key uuid key) = Inr None" "product_ids oin = {}"
  | (missing) "key \<noteq> []" "strip key \<noteq> []"
      "existing_order d user (resolve_key uuid key) = Inr None" "product_ids oin \<noteq> {}"
      "missing_ids (product_ids oin) (fetch_products d (product_ids oin)) \<noteq> {}"
  | (check_fails) e where "key \<noteq> []" "strip key \<noteq> []"
      "existing_order d user (resolve_key uuid key) = Inr None" "product_ids oin \<noteq> {}"
      "missing_ids (product_ids oin) (fetch_products d (product_ids oin)) = {}"
      "check_items (fetch_products d (product_ids oin)) (oc_items oin) = Some e"
  | (key_taken) "key \<noteq> []" "strip key \<noteq> []"
      "existing_order d user (resolve_key uuid key) = Inr None" "product_ids oin \<noteq> {}"
      "missing_ids (product_ids oin) (fetch_products d (product_ids oin)) = {}"
      "check_items (fetch_products d (product_ids oin)) (oc_items oin) = None"
      "\<exists>row \<in> set (orders d). o_idempotency_key row = Some (resolve_key uuid key)"
  | (placed) "key \<noteq> []" "strip key \<noteq> []"
      "existing_order d user (resolve_key uuid key) = Inr None" "product_ids oin \<noteq> {}"
      "missing_ids (product_ids oin) (fetch_products d (product_ids oin)) = {}"
      "check_items (fetch_products d (product_ids oin)) (oc_items oin) = None"
      "\<forall>row \<in> set (orders d). o_idempotency_key row \<noteq> Some (resolve_key uuid key)"
proof (cases "existing_order d user (resolve_key uuid key)")
  case (Inl e)
  then show ?thesis using rejected lookup_error by blast
next
  case (Inr r)
  show ?thesis
  proof (cases r)
    case (Some ex)
    with Inr show ?thesis using rejected existing by blast
  next
    case None
    with Inr have n: "existing_order d user (resolve_key uuid key) = Inr None" by simp
    show ?thesis
    proof (cases "check_items (fetch_products d (product_ids oin)) (oc_items oin)")
      case None
      with n show ?thesis using rejected no_items missing key_taken placed by blast
    next
      case (Some e)
      with n show ?thesis using rejected no_items missing check_fails by blast
    qed
  qed
qed

lemma create_order_error_db:
  assumes "create_order d uuid now user oin key pp = (d', Inl e)"
  shows "d' = d"
proof (cases rule: create_order_cases [where key=key and d=d and user=user and uuid=uuid and oin=oin])
  case rejected
  from create_order_empty_key [OF this] assms show ?thesis by simp
next
  case (lookup_error e)
  from create_order_lookup_error [OF this] assms show ?thesis by simp
next
  case (existing ex)
  from create_order_existing [OF this] assms show ?thesis by simp
next
  case no_items
  from create_order_no_items [OF this] assms show ?thesis by simp
next
  case missing
  from create_order_missing [OF this] assms show ?thesis by simp
next
  case (check_fails e)
  from create_order_check_fails [OF this] assms show ?thesis by simp
next
  case key_taken
  from create_order_key_taken [OF this] assms show ?thesis by simp
next
  case placed
  from create_order_placed [OF this] assms show ?thesis by simp
qed

lemma scalar_one_or_none_Some: "scalar_one_or_none xs = Inr (Some x) \<Longrightarrow> xs = [x]"
  by (cases xs rule: scalar_one_or_none.cases) simp_all


lemma existing_order_Some:
  "existing_order d user k = Inr (Some ex) \<Longrightarrow>
   ex \<in> set (orders d) \<and> o_user_id ex = u_id user \<and> o_idempotency_key ex = Some k"
proof -
  assume "existing_order d user k = Inr (Some ex)"
  then have "filter (\<lambda>row. o_user_id row = u_id user \<and> o_idempotency_key row = Some k) (orders d) = [ex]"
    unfolding existing_order_def by (rule scalar_one_or_none_Some)
  then have "ex \<in> set (filter (\<lambda>row. o_user_id row = u_id user \<and> o_idempotency_key row = Some k) (orders d))"
    by simp
  then show ?thesis by simp
qed

lemma check_items_append:
  "\<forall>x \<in> set pre. \<exists>q. prods (item_product_id x) = Some q \<and> p_status q = PUBLISHED
        \<and> p_is_published q \<and> item_quantity x \<le> p_stock q \<Longrightarrow>
   check_items prods (pre @ rest) = check_items prods rest"
  by (induction pre) auto



section \<open>Lemmas on the payment service\<close>

lemma py_int_whitespace:
  "py_int [CHR ''1'', CHR 0x1F] = None \<and> py_int [CHR 0x1C, CHR ''1''] = None
   \<and> py_int '' 12 '' = Some 12 \<and> py_int [CHR 0xA0, CHR ''-'', CHR ''7'', CHR 0x85] = Some (- 7)"
  by code_simp

lemma get_order_by_id_Some:
  assumes "get_order_by_id d i = Inr (Some order)"
  shows "filter (\<lambda>row. o_id row = i) (orders d) = [order]" and "o_id order = i"
proof -
  from assms show f: "filter (\<lambda>row. o_id row = i) (orders d) = [order]"
    unfolding get_order_by_id_def by (rule scalar_one_or_none_Some)
  then have "order \<in> set (filter (\<lambda>row. o_id row = i) (orders d))" by simp
  then show "o_id order = i" by simp
qed

lemma get_order_by_id_absent:
  "\<forall>row \<in> set (orders d). o_id row \<noteq> i \<Longrightarrow> get_order_by_id d i = Inr None"
proof -
  assume "\<forall>row \<in> set (orders d). o_id row \<noteq> i"
  then have "filter (\<lambda>row. o_id row = i) (orders d) = []"
    by (simp add: filter_empty_conv)
  then show ?thesis by (simp add: get_order_by_id_def)
qed

lemma filter_write:
  assumes "filter (\<lambda>row. o_id row = i) xs = [x]" and "o_id x' = i"
  shows "filter (\<lambda>row. o_id row = i) (map (\<lambda>row. if o_id row = i then x' else row) xs) = [x']"
proof -
  have c: "(\<lambda>row. o_id row = i) \<circ> (\<lambda>row. if o_id row = i then x' else row)
             = (\<lambda>row. o_id row = i)"
    by (auto simp: fun_eq_iff assms(2))
  have "x \<in> set (filter (\<lambda>row. o_id row = i) xs)" using assms(1) by simp
  then have "o_id x = i" by simp
  then show ?thesis by (simp add: filter_map c assms(1))
qed

lemma map_write:
  assumes "filter (\<lambda>row. o_id row = i) xs = [x]"
  shows "map (\<lambda>row. if o_id row = i then f row else row) xs
           = map (\<lambda>row. if o_id row = i then f x else row) xs"
proof (rule map_cong [OF refl])
  fix row assume r: "row \<in> set xs"
  show "(if o_id row = i then f row else row) = (if o_id row = i then f x else row)"
  proof (cases "o_id row = i")
    case True
    with r have "row \<in> set (filter (\<lambda>row. o_id row = i) xs)" by simp
    with assms have "row = x" by simp
    with True show ?thesis by simp
  next
    case False
    then show ?thesis by simp
  qed
qed

lemma get_order_by_id_written:
  assumes "get_order_by_id d i = Inr (Some order)" and "o_id order' = i"
  shows "get_order_by_id (d \<lparr> orders := map (\<lambda>row. if o_id row = i then order' else row) (orders d) \<rparr>) i
           = Inr (Some order')"
  using filter_write [OF get_order_by_id_Some(1) [OF assms(1)] assms(2)]
  by (simp add: get_order_by_id_def)

lemma update_order_status_found:
  fixes status :: OrderStatus and reference :: "string option"
  assumes "get_order_by_id d i = Inr (Some order)"
  defines "order' \<equiv> order \<lparr> o_status := status,
              o_payment_reference := (if truthy reference then reference
                                      else o_payment_reference order) \<rparr>"
  shows "update_order_status d order status reference
           = (d \<lparr> orders := map (\<lambda>row. if o_id row = i then order' else row) (orders d) \<rparr>,
              Inr order')"
proof -
  note g = get_order_by_id_Some [OF assms(1)]
  let ?f = "\<lambda>row. row \<lparr> o_status := status,
              o_payment_reference := (if truthy reference then reference
                                      else o_payment_reference row) \<rparr>"
  have f: "?f order = order'" by (simp add: order'_def)
  have i': "o_id order' = i" by (simp add: order'_def g(2))
  have w: "write_order d i ?f
             = d \<lparr> orders := map (\<lambda>row. if o_id row = i then order' else row) (orders d) \<rparr>"
    unfolding write_order_def using map_write [OF g(1), of ?f] by (simp only: f)
  have r: "filter (\<lambda>row. o_id row = i) (orders (write_order d i ?f)) = [order']"
    unfolding w using filter_write [OF g(1) i'] by simp
  show ?thesis
    unfolding update_order_status_def Let_def refresh_def g(2)
    using r by (simp add: w [symmetric])
qed

lemma map_write_twice:
  "map (\<lambda>row. if o_id row = i then x else row) (map (\<lambda>row. if o_id row = i then x else row) xs)
     = map (\<lambda>row. if o_id row = i then x else row) xs"
  by (induction xs) auto

lemma handle_webhook_succeeded:
  assumes g: "get_order_by_id d (wh_order_id data) = Inr (Some order)"
    and p: "o_payment_provider order = Some (wh_provider data)"
    and e: "wh_event data = ''payment_succeeded''"
  defines "order' \<equiv> order \<lparr> o_status := PAID,
             o_payment_reference :=
               (case wh_payload data ''payment_intent'' of
                  Some (Some r) \<Rightarrow> if r \<noteq> [] then Some r else o_payment_reference order
                | _ \<Rightarrow> o_payment_reference order) \<rparr>"
  shows "handle_webhook d data
           = (d \<lparr> orders := map (\<lambda>row. if o_id row = wh_order_id data then order' else row)
                               (orders d) \<rparr>,
              Inr (order', PAID))"
proof -
  let ?ref = "case wh_payload data ''payment_intent'' of
                None \<Rightarrow> o_payment_reference order | Some v \<Rightarrow> v"
  have r: "order \<lparr> o_status := PAID,
              o_payment_reference := (if truthy ?ref then ?ref else o_payment_reference order) \<rparr>
           = order'"
    unfolding order'_def
    by (cases "wh_payload data ''payment_intent''"; cases "o_payment_reference order")
       (auto split: option.splits)
  have s: "o_status order' = PAID" by (simp add: order'_def)
  show ?thesis
    unfolding handle_webhook_def
    by (simp add: g p e Let_def update_order_status_found [OF g] r s)
qed

lemma handle_webhook_other:
  assumes g: "get_order_by_id d (wh_order_id data) = Inr (Some order)"
    and p: "o_payment_provider order = Some (wh_provider data)"
    and e: "wh_event data \<noteq> ''payment_succeeded''"
  shows "handle_webhook d data =
     (if wh_event data = ''payment_failed''
      then (d \<lparr> orders := map (\<lambda>row. if o_id row = wh_order_id data
                                     then order \<lparr> o_status := CANCELLED \<rparr> else row) (orders d) \<rparr>,
            Inr (order \<lparr> o_status := CANCELLED \<rparr>, CANCELLED))
      else if wh_event data = ''payment_refunded''
      then (d \<lparr> orders := map (\<lambda>row. if o_id row = wh_order_id data
                                     then order \<lparr> o_status := REFUNDED \<rparr> else row) (orders d) \<rparr>,
            Inr (order \<lparr> o_status := REFUNDED \<rparr>, REFUNDED))
      else (d, Inl (PaymentProviderError ''Unknown event'')))"
  unfolding handle_webhook_def
  by (simp add: g p e Let_def update_order_status_found [OF g])

lemma set_payment_keeps:
  assumes "set_payment d order provider reference = (d', r)"
  shows "map o_status (orders d') = map o_status (orders d)"
    and "map (\<lambda>row. row \<lparr> o_payment_provider := None, o_payment_reference := None \<rparr>) (orders d')
           = map (\<lambda>row. row \<lparr> o_payment_provider := None, o_payment_reference := None \<rparr>) (orders d)"
    and "products d' = products d"
  using assms by (auto simp: set_payment_def Let_def write_order_def)

section \<open>Lemmas on histories\<close>











section \<open>Claims on \<open>create_order\<close>\<close>

text \<open>
  C1. When \<open>create_order\<close> creates an order, its lines correspond one to one to the
  requested items: the unit price of a line is the promotional price of the product when
  there is one and the regular price otherwise, the quantity is the requested one and
  the subtotal is unit price times quantity; the total amount of the order is the sum of
  the subtotals and the number of items is the sum of the quantities. When the call
  answers with an order that existed already, the totals of that order are right provided
  the totals of the stored orders are.
\<close>

theorem create_order_lines_and_totals:
  assumes "create_order d uuid now user oin key pp = (d', Inr (order, created))"
  shows "(created \<longrightarrow>
            list_all2 (\<lambda>line it. \<exists>product. products d (item_product_id it) = Some product
                \<and> l_unit_price_cents line =
                     (case p_promo_price_cents product of
                        Some promo \<Rightarrow> promo | None \<Rightarrow> p_price_cents product)
                \<and> l_quantity line = item_quantity it
                \<and> l_subtotal_cents line = l_unit_price_cents line * l_quantity line)
              (o_lines order) (oc_items oin)
            \<and> o_total_amount_cents order = sum_list (map l_subtotal_cents (o_lines order))
            \<and> o_total_items order = sum_list (map l_quantity (o_lines order)))
       \<and> ((\<forall>row \<in> set (orders d).
               o_total_amount_cents row = sum_list (map l_subtotal_cents (o_lines row))
               \<and> o_total_items row = sum_list (map l_quantity (o_lines row)))
           \<longrightarrow> o_total_amount_cents order = sum_list (map l_subtotal_cents (o_lines order))
               \<and> o_total_items order = sum_list (map l_quantity (o_lines order)))"
proof (cases rule: create_order_cases [where key=key and d=d and user=user and uuid=uuid and oin=oin])
  case rejected
  from create_order_empty_key [OF this] assms show ?thesis by simp
next
  case (lookup_error e)
  from create_order_lookup_error [OF this] assms show ?thesis by simp
next
  case (existing ex)
  from create_order_existing [OF this] assms have "order = ex" "\<not> created" by simp_all
  with existing_order_Some [OF existing(3)] show ?thesis by simp
next
  case no_items
  from create_order_no_items [OF this] assms show ?thesis by simp
next
  case missing
  from create_order_missing [OF this] assms show ?thesis by simp
next
  case (check_fails e)
  from create_order_check_fails [OF this] assms show ?thesis by simp
next
  case key_taken
  from create_order_key_taken [OF this] assms show ?thesis by simp
next
  case placed
  let ?its = "oc_items oin"
  from create_order_placed [OF placed, where now=now and pp=pp] assms
  have lines: "o_lines order = map (\<lambda>it. new_line (item_product_id it)
                         (the (products d (item_product_id it))) it) ?its"
    and amount: "o_total_amount_cents order = sum_list (map (\<lambda>it. l_subtotal_cents
             (new_line (item_product_id it) (the (products d (item_product_id it))) it)) ?its)"
    and count: "o_total_items order = sum_list (map item_quantity ?its)"
    by auto
  have known: "\<forall>it \<in> set ?its. products d (item_product_id it) \<noteq> None"
    using placed(5) by (simp add: missing_ids_empty)
  have la: "list_all2 (\<lambda>line it. \<exists>product. products d (item_product_id it) = Some product
                \<and> l_unit_price_cents line =
                     (case p_promo_price_cents product of
                        Some promo \<Rightarrow> promo | None \<Rightarrow> p_price_cents product)
                \<and> l_quantity line = item_quantity it
                \<and> l_subtotal_cents line = l_unit_price_cents line * l_quantity line)
              (o_lines order) ?its"
    unfolding lines list_all2_map1 list_all2_same
  proof
    fix it assume "it \<in> set ?its"
    with known obtain product where "products d (item_product_id it) = Some product" by auto
    then show "\<exists>product. products d (item_product_id it) = Some product
                \<and> l_unit_price_cents (new_line (item_product_id it)
                         (the (products d (item_product_id it))) it) =
                     (case p_promo_price_cents product of
                        Some promo \<Rightarrow> promo | None \<Rightarrow> p_price_cents product)
                \<and> l_quantity (new_line (item_product_id it)
                         (the (products d (item_product_id it))) it) = item_quantity it
                \<and> l_subtotal_cents (new_line (item_product_id it)
                         (the (products d (item_product_id it))) it)
                  = l_unit_price_cents (new_line (item_product_id it)
                         (the (products d (item_product_id it))) it)
                    * l_quantity (new_line (item_product_id it)
                         (the (products d (item_product_id it))) it)"
      by (simp add: new_line_sel)
  qed
  have a: "o_total_amount_cents order = sum_list (map l_subtotal_cents (o_lines order))"
    by (simp add: amount lines comp_def)
  have c: "o_total_items order = sum_list (map l_quantity (o_lines order))"
    by (simp add: count lines comp_def new_line_sel)
  from la a c show ?thesis by simp
qed

text \<open>
  The example of the specification: two of product 1 (500, on sale for 400) and one of
  product 2 (1000): subtotals 800 and 1000, total 1800, three items.
\<close>

theorem create_order_lines_and_totals_witness:
  "snd (create_order shop ''0f'' 0 alice basket ''key-1'' (Some ''manual'')) = Inr (basket_order, True)
   \<and> map l_unit_price_cents (o_lines basket_order) = [400, 1000]
   \<and> map l_subtotal_cents (o_lines basket_order) = [800, 1000]
   \<and> o_total_amount_cents basket_order = 1800
   \<and> o_total_items basket_order = 3
   \<and> o_total_amount_cents basket_order = sum_list (map l_subtotal_cents (o_lines basket_order))
   \<and> o_total_items basket_order = sum_list (map l_quantity (o_lines basket_order))"
proof -
  have e: "snd (create_order shop ''0f'' 0 alice basket ''key-1'' (Some ''manual''))
             = Inr (basket_order, True)"
    by code_simp
  then have h: "create_order shop ''0f'' 0 alice basket ''key-1'' (Some ''manual'')
             = (fst (create_order shop ''0f'' 0 alice basket ''key-1'' (Some ''manual'')),
                Inr (basket_order, True))"
    by (metis prod.collapse)
  from create_order_lines_and_totals [OF h]
  have "o_total_amount_cents basket_order = sum_list (map l_subtotal_cents (o_lines basket_order))
        \<and> o_total_items basket_order = sum_list (map l_quantity (o_lines basket_order))"
    by simp
  moreover have "map l_unit_price_cents (o_lines basket_order) = [400, 1000]
     \<and> map l_subtotal_cents (o_lines basket_order) = [800, 1000]
     \<and> o_total_amount_cents basket_order = 1800 \<and> o_total_items basket_order = 3"
    by (simp add: basket_order_def)
  ultimately show ?thesis using e by simp
qed




text \<open>
  C3. A call that gets past the key check and the lookup of an existing order, with at
  least one item: if some requested product id is not in the product table, it raises
  \<open>ProductUnavailableError\<close> carrying the sorted missing ids; otherwise, at the first line
  whose product is unpublished or short of stock (all lines before it being published and
  in stock), it raises \<open>ProductUnavailableError\<close> when the product is not published,
  whatever its stock, and \<open>OutOfStockError\<close> when it is published and its stock is below
  the quantity. In each of these cases, and for every exception that \<open>create_order\<close>
  raises, the database after the call is the database before it.
\<close>

theorem create_order_validation_errors:
  assumes "key \<noteq> []" and "strip key \<noteq> []"
    and "existing_order d user (resolve_key uuid key) = Inr None"
    and "oc_items oin \<noteq> []"
  shows "({pid \<in> product_ids oin. products d pid = None} \<noteq> {} \<longrightarrow>
            create_order d uuid now user oin key pp
              = (d, Inl (ProductUnavailableError (Products_not_found
                   (sorted_list_of_set {pid \<in> product_ids oin. products d pid = None})))))
       \<and> ({pid \<in> product_ids oin. products d pid = None} = {} \<longrightarrow>
            (\<forall>pre it post p.
               oc_items oin = pre @ it # post
               \<and> (\<forall>x \<in> set pre. \<exists>q. products d (item_product_id x) = Some q
                      \<and> p_status q = PUBLISHED \<and> p_is_published q
                      \<and> item_quantity x \<le> p_stock q)
               \<and> products d (item_product_id it) = Some p \<longrightarrow>
               (if p_status p \<noteq> PUBLISHED \<or> \<not> p_is_published p
                then create_order d uuid now user oin key pp
                       = (d, Inl (ProductUnavailableError
                                   (Not_available_for_purchase (item_product_id it))))
                else p_stock p < item_quantity it \<longrightarrow>
                     create_order d uuid now user oin key pp
                       = (d, Inl (OutOfStockError (item_product_id it))))))
       \<and> (\<forall>d' e. create_order d uuid now user oin key pp = (d', Inl e) \<longrightarrow> d' = d)"
proof (intro conjI impI allI)
  assume m: "{pid \<in> product_ids oin. products d pid = None} \<noteq> {}"
  have ne: "product_ids oin \<noteq> {}" using assms(4) by (simp add: product_ids_empty)
  from m have "missing_ids (product_ids oin) (fetch_products d (product_ids oin)) \<noteq> {}"
    by (simp add: missing_ids_fetch)
  from create_order_missing [OF assms(1-3) ne this]
  show "create_order d uuid now user oin key pp
              = (d, Inl (ProductUnavailableError (Products_not_found
                   (sorted_list_of_set {pid \<in> product_ids oin. products d pid = None}))))"
    by (simp add: missing_ids_fetch)
next
  fix pre it post p
  assume m: "{pid \<in> product_ids oin. products d pid = None} = {}"
    and h: "oc_items oin = pre @ it # post
               \<and> (\<forall>x \<in> set pre. \<exists>q. products d (item_product_id x) = Some q
                      \<and> p_status q = PUBLISHED \<and> p_is_published q
                      \<and> item_quantity x \<le> p_stock q)
               \<and> products d (item_product_id it) = Some p"
  let ?P = "fetch_products d (product_ids oin)"
  have ne: "product_ids oin \<noteq> {}" using assms(4) by (simp add: product_ids_empty)
  from m have m': "missing_ids (product_ids oin) ?P = {}"
    by (simp add: missing_ids_fetch)
  have pre: "\<forall>x \<in> set pre. \<exists>q. ?P (item_product_id x) = Some q
                      \<and> p_status q = PUBLISHED \<and> p_is_published q
                      \<and> item_quantity x \<le> p_stock q"
    using h by (simp add: fetch_products_requested)
  have it: "?P (item_product_id it) = Some p"
    using h by (simp add: fetch_products_requested)
  have c: "check_items ?P (oc_items oin) = check_items ?P (it # post)"
    using check_items_append [OF pre] h by simp
  show "if p_status p \<noteq> PUBLISHED \<or> \<not> p_is_published p
        then create_order d uuid now user oin key pp
               = (d, Inl (ProductUnavailableError
                           (Not_available_for_purchase (item_product_id it))))
        else p_stock p < item_quantity it \<longrightarrow>
             create_order d uuid now user oin key pp
               = (d, Inl (OutOfStockError (item_product_id it)))"
  proof (cases "p_status p \<noteq> PUBLISHED \<or> \<not> p_is_published p")
    case True
    then have "check_items ?P (oc_items oin)
      = Some (ProductUnavailableError (Not_available_for_purchase (item_product_id it)))"
      by (simp add: c it)
    from create_order_check_fails [OF assms(1-3) ne m' this] True show ?thesis by simp
  next
    case False
    show ?thesis
    proof (cases "p_stock p < item_quantity it")
      case True
      with False have "check_items ?P (oc_items oin) = Some (OutOfStockError (item_product_id it))"
        by (simp add: c it)
      from create_order_check_fails [OF assms(1-3) ne m' this] False show ?thesis by simp
    next
      case n: False
      with False show ?thesis by simp
    qed
  qed
next
  fix d' e
  assume "create_order d uuid now user oin key pp = (d', Inl e)"
  then show "d' = d" by (rule create_order_error_db)
qed

text \<open>
  A missing product; a draft that is out of stock as well, after a line that can be
  served; a line that asks for more than is in stock, after a line that can be served.
\<close>

theorem create_order_validation_errors_witness:
  "create_order shop ''0f'' 0 alice missing_basket ''key-1'' None
      = (shop, Inl (ProductUnavailableError (Products_not_found [9])))
   \<and> create_order shop ''0f'' 0 alice draft_basket ''key-1'' None
      = (shop, Inl (ProductUnavailableError (Not_available_for_purchase 3)))
   \<and> create_order shop ''0f'' 0 alice large_basket ''key-1'' None
      = (shop, Inl (OutOfStockError 1))"
proof -
  have k: "''key-1'' \<noteq> []" "strip ''key-1'' \<noteq> []"
    by code_simp+
  have x: "existing_order shop alice (resolve_key ''0f'' ''key-1'') = Inr None"
    by code_simp
  have m: "oc_items missing_basket \<noteq> []" "oc_items draft_basket \<noteq> []" "oc_items large_basket \<noteq> []"
    by (simp_all add: missing_basket_def draft_basket_def large_basket_def)
  have m1: "{pid \<in> product_ids missing_basket. products shop pid = None} \<noteq> {}"
    by code_simp
  have s1: "sorted_list_of_set {pid \<in> product_ids missing_basket. products shop pid = None} = [9]"
    by code_simp
  have m2: "{pid \<in> product_ids draft_basket. products shop pid = None} = {}"
    by code_simp
  have m3: "{pid \<in> product_ids large_basket. products shop pid = None} = {}"
    by code_simp
  have a: "create_order shop ''0f'' 0 alice missing_basket ''key-1'' None
      = (shop, Inl (ProductUnavailableError (Products_not_found [9])))"
    using create_order_validation_errors [OF k x m(1), where now=0 and pp=None] m1 s1 by simp
  have d: "oc_items draft_basket = [\<lparr> item_product_id = 2, item_quantity = 1 \<rparr>]
             @ \<lparr> item_product_id = 3, item_quantity = 5 \<rparr>
             # [\<lparr> item_product_id = 1, item_quantity = 99 \<rparr>]
           \<and> (\<forall>x \<in> set [\<lparr> item_product_id = 2, item_quantity = 1 \<rparr>].
                 \<exists>q. products shop (item_product_id x) = Some q
                      \<and> p_status q = PUBLISHED \<and> p_is_published q
                      \<and> item_quantity x \<le> p_stock q)
           \<and> products shop (item_product_id \<lparr> item_product_id = 3, item_quantity = 5 \<rparr>)
                = Some product_c"
    by (simp add: draft_basket_def shop_def product_b_def)
  have b: "create_order shop ''0f'' 0 alice draft_basket ''key-1'' None
      = (shop, Inl (ProductUnavailableError (Not_available_for_purchase 3)))"
    using create_order_validation_errors [OF k x m(2), where now=0 and pp=None,
        THEN conjunct2, THEN conjunct1, rule_format, OF m2 d]
    by (simp add: product_c_def)
  have l: "oc_items large_basket = [\<lparr> item_product_id = 2, item_quantity = 1 \<rparr>]
             @ \<lparr> item_product_id = 1, item_quantity = 4 \<rparr> # []
           \<and> (\<forall>x \<in> set [\<lparr> item_product_id = 2, item_quantity = 1 \<rparr>].
                 \<exists>q. products shop (item_product_id x) = Some q
                      \<and> p_status q = PUBLISHED \<and> p_is_published q
                      \<and> item_quantity x \<le> p_stock q)
           \<and> products shop (item_product_id \<lparr> item_product_id = 1, item_quantity = 4 \<rparr>)
                = Some product_a"
    by (simp add: large_basket_def shop_def product_b_def)
  have c: "create_order shop ''0f'' 0 alice large_basket ''key-1'' None
      = (shop, Inl (OutOfStockError 1))"
    using create_order_validation_errors [OF k x m(3), where now=0 and pp=None,
        THEN conjunct2, THEN conjunct1, rule_format, OF m3 l]
    by (simp add: product_a_def)
  from a b c show ?thesis by simp
qed

text \<open>
  C4. The claim fails on the code: the stock check of the first loop reads the stock
  before any decrement, so a request that lists product 1 on two lines, two units each,
  passes while three units are in stock; the order is created and the stock of product 1
  is \<open>-1\<close> afterwards.
\<close>

theorem create_order_duplicate_lines_negative_stock:
  "map_option p_stock (products shop 1) = Some 3
   \<and> map_sum id snd (snd (create_order shop ''0f'' 0 alice double_basket ''key-1'' (Some ''manual'')))
       = Inr True
   \<and> map_option p_stock
        (products (fst (create_order shop ''0f'' 0 alice double_basket ''key-1'' (Some ''manual''))) 1)
       = Some (- 1)"
  by code_simp

text \<open>
  C5, as amended. On every line of an order created by \<open>create_order\<close> the reference
  price is the regular price of the product, whether or not the product has a promotional
  price.
\<close>

theorem create_order_reference_price:
  assumes "create_order d uuid now user oin key pp = (d', Inr (order, True))"
  shows "list_all2 (\<lambda>line it. \<exists>product. products d (item_product_id it) = Some product
                \<and> l_reference_price_cents line = p_price_cents product)
              (o_lines order) (oc_items oin)"
proof (cases rule: create_order_cases [where key=key and d=d and user=user and uuid=uuid and oin=oin])
  case rejected
  from create_order_empty_key [OF this] assms show ?thesis by simp
next
  case (lookup_error e)
  from create_order_lookup_error [OF this] assms show ?thesis by simp
next
  case (existing ex)
  from create_order_existing [OF this] assms show ?thesis by simp
next
  case no_items
  from create_order_no_items [OF this] assms show ?thesis by simp
next
  case missing
  from create_order_missing [OF this] assms show ?thesis by simp
next
  case (check_fails e)
  from create_order_check_fails [OF this] assms show ?thesis by simp
next
  case key_taken
  from create_order_key_taken [OF this] assms show ?thesis by simp
next
  case placed
  let ?its = "oc_items oin"
  from create_order_placed [OF placed, where now=now and pp=pp] assms
  have lines: "o_lines order = map (\<lambda>it. new_line (item_product_id it)
                         (the (products d (item_product_id it))) it) ?its"
    by auto
  have known: "\<forall>it \<in> set ?its. products d (item_product_id it) \<noteq> None"
    using placed(5) by (simp add: missing_ids_empty)
  show ?thesis
    unfolding lines list_all2_map1 list_all2_same
  proof
    fix it assume "it \<in> set ?its"
    with known obtain product where "products d (item_product_id it) = Some product" by auto
    then show "\<exists>product. products d (item_product_id it) = Some product
                \<and> l_reference_price_cents (new_line (item_product_id it)
                         (the (products d (item_product_id it))) it) = p_price_cents product"
      by (simp add: new_line_sel)
  qed
qed

text \<open>The basket order: reference prices 500 and 1000, the regular prices.\<close>

theorem create_order_reference_price_witness:
  "snd (create_order shop ''0f'' 0 alice basket ''key-1'' (Some ''manual'')) = Inr (basket_order, True)
   \<and> list_all2 (\<lambda>line it. \<exists>product. products shop (item_product_id it) = Some product
                \<and> l_reference_price_cents line = p_price_cents product)
              (o_lines basket_order) (oc_items basket)"
proof -
  have e: "snd (create_order shop ''0f'' 0 alice basket ''key-1'' (Some ''manual''))
             = Inr (basket_order, True)"
    by code_simp
  then have h: "create_order shop ''0f'' 0 alice basket ''key-1'' (Some ''manual'')
             = (fst (create_order shop ''0f'' 0 alice basket ''key-1'' (Some ''manual'')),
                Inr (basket_order, True))"
    by (metis prod.collapse)
  from create_order_reference_price [OF h] e show ?thesis by simp
qed

text \<open>
  C5 as stated fails: product 2 has no promotional price, and the line for it records the
  reference price 1000, its regular price.
\<close>

theorem create_order_reference_price_counterexample:
  "snd (create_order shop ''0f'' 0 alice basket ''key-1'' (Some ''manual'')) = Inr (basket_order, True)
   \<and> map_option p_promo_price_cents (products shop 2) = Some None
   \<and> map l_product_id (o_lines basket_order) = [Some 1, Some 2]
   \<and> map l_reference_price_cents (o_lines basket_order) = [500, 1000]"
  by code_simp

text \<open>
  C10. The order that \<open>create_order\<close> answers with, created or found, belongs to the
  calling user; so it is none of the stored orders of another user, whatever key the two
  users supplied.
\<close>

theorem create_order_own_order:
  assumes "create_order d uuid now user oin key pp = (d', Inr (order, created))"
  shows "o_user_id order = u_id user
         \<and> (\<forall>other \<in> set (orders d). o_user_id other \<noteq> u_id user \<longrightarrow> order \<noteq> other)"
proof -
  have "o_user_id order = u_id user"
  proof (cases rule: create_order_cases [where key=key and d=d and user=user and uuid=uuid and oin=oin])
    case rejected
    from create_order_empty_key [OF this] assms show ?thesis by simp
  next
    case (lookup_error e)
    from create_order_lookup_error [OF this] assms show ?thesis by simp
  next
    case (existing ex)
    from create_order_existing [OF this] assms have "order = ex" by simp
    with existing_order_Some [OF existing(3)] show ?thesis by simp
  next
    case no_items
    from create_order_no_items [OF this] assms show ?thesis by simp
  next
    case missing
    from create_order_missing [OF this] assms show ?thesis by simp
  next
    case (check_fails e)
    from create_order_check_fails [OF this] assms show ?thesis by simp
  next
    case key_taken
    from create_order_key_taken [OF this] assms show ?thesis by simp
  next
    case placed
    from create_order_placed [OF placed, where now=now and pp=pp] assms
    show ?thesis by auto
  qed
  then show ?thesis by auto
qed

text \<open>
  User 7 retries under the key of the basket order and gets that order back; user 8 under
  the same key does not get it: the insert fails on the unique index.
\<close>

theorem create_order_own_order_witness:
  "snd (create_order shop_sold ''1e'' 9 alice small_basket ''key-1'' None) = Inr (basket_order, False)
   \<and> o_user_id basket_order = u_id alice
   \<and> u_id bob \<noteq> u_id alice
   \<and> snd (create_order shop_sold ''1e'' 9 bob small_basket ''key-1'' None) = Inl IntegrityError"
proof -
  have e: "snd (create_order shop_sold ''1e'' 9 alice small_basket ''key-1'' None)
             = Inr (basket_order, False)"
    by code_simp
  then have h: "create_order shop_sold ''1e'' 9 alice small_basket ''key-1'' None
             = (fst (create_order shop_sold ''1e'' 9 alice small_basket ''key-1'' None),
                Inr (basket_order, False))"
    by (metis prod.collapse)
  have b: "u_id bob \<noteq> u_id alice
     \<and> snd (create_order shop_sold ''1e'' 9 bob small_basket ''key-1'' None) = Inl IntegrityError"
    by code_simp
  from create_order_own_order [OF h] e b show ?thesis by simp
qed

section \<open>Claims on the payment service\<close>

text \<open>
  C6. For a webhook whose order is found and whose provider is the one recorded on the
  order, whatever the status of the order: \<open>payment_succeeded\<close> writes the status
  \<open>PAID\<close> and records the \<open>payment_intent\<close> of the payload as payment reference when
  it is a non-empty string (the reference stays as it is otherwise), and handling the same
  webhook again answers the same and leaves the database as the first handling left it;
  \<open>payment_failed\<close> writes \<open>CANCELLED\<close>; \<open>payment_refunded\<close> writes \<open>REFUNDED\<close>; every
  other event raises \<open>PaymentProviderError\<close> and changes nothing.
\<close>

theorem handle_webhook_transitions:
  assumes g: "get_order_by_id d (wh_order_id data) = Inr (Some order)"
    and p: "o_payment_provider order = Some (wh_provider data)"
  shows
   "(wh_event data = ''payment_succeeded'' \<longrightarrow>
       (\<forall>order' d'.
          order' = order \<lparr> o_status := PAID,
             o_payment_reference :=
               (case wh_payload data ''payment_intent'' of
                  Some (Some r) \<Rightarrow> if r \<noteq> [] then Some r else o_payment_reference order
                | _ \<Rightarrow> o_payment_reference order) \<rparr>
          \<and> d' = d \<lparr> orders := map (\<lambda>row. if o_id row = wh_order_id data then order' else row)
                                   (orders d) \<rparr>
          \<longrightarrow> handle_webhook d data = (d', Inr (order', PAID))
              \<and> handle_webhook d' data = (d', Inr (order', PAID))))
    \<and> (wh_event data = ''payment_failed'' \<longrightarrow>
         handle_webhook d data
           = (d \<lparr> orders := map (\<lambda>row. if o_id row = wh_order_id data
                                     then order \<lparr> o_status := CANCELLED \<rparr> else row) (orders d) \<rparr>,
              Inr (order \<lparr> o_status := CANCELLED \<rparr>, CANCELLED)))
    \<and> (wh_event data = ''payment_refunded'' \<longrightarrow>
         handle_webhook d data
           = (d \<lparr> orders := map (\<lambda>row. if o_id row = wh_order_id data
                                     then order \<lparr> o_status := REFUNDED \<rparr> else row) (orders d) \<rparr>,
              Inr (order \<lparr> o_status := REFUNDED \<rparr>, REFUNDED)))
    \<and> (wh_event data \<notin> {''payment_succeeded'', ''payment_failed'', ''payment_refunded''} \<longrightarrow>
         handle_webhook d data = (d, Inl (PaymentProviderError ''Unknown event'')))"
proof (intro conjI impI allI)
  fix order' d'
  assume e: "wh_event data = ''payment_succeeded''"
    and h: "order' = order \<lparr> o_status := PAID,
             o_payment_reference :=
               (case wh_payload data ''payment_intent'' of
                  Some (Some r) \<Rightarrow> if r \<noteq> [] then Some r else o_payment_reference order
                | _ \<Rightarrow> o_payment_reference order) \<rparr>
          \<and> d' = d \<lparr> orders := map (\<lambda>row. if o_id row = wh_order_id data then order' else row)
                                   (orders d) \<rparr>"
  from handle_webhook_succeeded [OF g p e] h
  show first: "handle_webhook d data = (d', Inr (order', PAID))" by simp
  have i: "o_id order' = wh_order_id data"
    using h get_order_by_id_Some(2) [OF g] by simp
  have g': "get_order_by_id d' (wh_order_id data) = Inr (Some order')"
    using get_order_by_id_written [OF g i] h by simp
  have p': "o_payment_provider order' = Some (wh_provider data)"
    using h p by simp
  have same: "order' \<lparr> o_status := PAID,
             o_payment_reference :=
               (case wh_payload data ''payment_intent'' of
                  Some (Some r) \<Rightarrow> if r \<noteq> [] then Some r else o_payment_reference order'
                | _ \<Rightarrow> o_payment_reference order') \<rparr> = order'"
    using h by (auto split: option.splits)
  have d'': "d' \<lparr> orders := map (\<lambda>row. if o_id row = wh_order_id data then order' else row)
                                   (orders d') \<rparr> = d'"
    using h by (simp add: map_write_twice)
  from handle_webhook_succeeded [OF g' p' e]
  show "handle_webhook d' data = (d', Inr (order', PAID))"
    by (simp only: same d'')
next
  assume "wh_event data = ''payment_failed''"
  then show "handle_webhook d data
           = (d \<lparr> orders := map (\<lambda>row. if o_id row = wh_order_id data
                                     then order \<lparr> o_status := CANCELLED \<rparr> else row) (orders d) \<rparr>,
              Inr (order \<lparr> o_status := CANCELLED \<rparr>, CANCELLED))"
    by (simp add: handle_webhook_other [OF g p])
next
  assume "wh_event data = ''payment_refunded''"
  then show "handle_webhook d data
           = (d \<lparr> orders := map (\<lambda>row. if o_id row = wh_order_id data
                                     then order \<lparr> o_status := REFUNDED \<rparr> else row) (orders d) \<rparr>,
              Inr (order \<lparr> o_status := REFUNDED \<rparr>, REFUNDED))"
    by (simp add: handle_webhook_other [OF g p])
next
  assume "wh_event data \<notin> {''payment_succeeded'', ''payment_failed'', ''payment_refunded''}"
  then show "handle_webhook d data = (d, Inl (PaymentProviderError ''Unknown event''))"
    by (simp add: handle_webhook_other [OF g p])
qed

text \<open>The payment of the basket order, delivered twice.\<close>

theorem handle_webhook_transitions_witness:
  "handle_webhook shop_sold paid_hook
     = (shop_sold \<lparr> orders := [basket_order \<lparr> o_status := PAID,
                                               o_payment_reference := Some ''pi_42'' \<rparr>] \<rparr>,
        Inr (basket_order \<lparr> o_status := PAID, o_payment_reference := Some ''pi_42'' \<rparr>, PAID))
   \<and> handle_webhook
        (shop_sold \<lparr> orders := [basket_order \<lparr> o_status := PAID,
                                               o_payment_reference := Some ''pi_42'' \<rparr>] \<rparr>)
        paid_hook
     = (shop_sold \<lparr> orders := [basket_order \<lparr> o_status := PAID,
                                               o_payment_reference := Some ''pi_42'' \<rparr>] \<rparr>,
        Inr (basket_order \<lparr> o_status := PAID, o_payment_reference := Some ''pi_42'' \<rparr>, PAID))"
proof -
  have g: "get_order_by_id shop_sold (wh_order_id paid_hook) = Inr (Some basket_order)"
    by code_simp
  have p: "o_payment_provider basket_order = Some (wh_provider paid_hook)"
    by code_simp
  have e: "wh_event paid_hook = ''payment_succeeded''"
    by (simp add: paid_hook_def)
  have o: "basket_order \<lparr> o_status := PAID,
             o_payment_reference :=
               (case wh_payload paid_hook ''payment_intent'' of
                  Some (Some r) \<Rightarrow> if r \<noteq> [] then Some r else o_payment_reference basket_order
                | _ \<Rightarrow> o_payment_reference basket_order) \<rparr>
           = basket_order \<lparr> o_status := PAID, o_payment_reference := Some ''pi_42'' \<rparr>"
    by (simp add: paid_hook_def)
  have d: "shop_sold \<lparr> orders := map (\<lambda>row. if o_id row = wh_order_id paid_hook
              then basket_order \<lparr> o_status := PAID, o_payment_reference := Some ''pi_42'' \<rparr>
              else row) (orders shop_sold) \<rparr>
           = shop_sold \<lparr> orders := [basket_order \<lparr> o_status := PAID,
                                               o_payment_reference := Some ''pi_42'' \<rparr>] \<rparr>"
    by (simp add: shop_sold_def basket_order_def paid_hook_def)
  from handle_webhook_transitions [OF g p, THEN conjunct1, rule_format, OF e conjI [OF o [symmetric] d [symmetric]]]
  show ?thesis .
qed

text \<open>
  C7, as amended. For a Stripe event whose order is found: \<open>checkout.session.completed\<close>
  writes \<open>PAID\<close> (and records the payment intent, or else the session id, when there
  is one); \<open>charge.refunded\<close> and \<open>payment_intent.canceled\<close> write \<open>REFUNDED\<close>;
  \<open>checkout.session.expired\<close> and \<open>payment_intent.payment_failed\<close> write
  \<open>CANCELLED\<close>; every other event type raises \<open>PaymentProviderError\<close> and changes
  nothing.
\<close>

theorem handle_stripe_event_transitions:
  assumes i: "stripe_order_id (se_object event) = Some i"
    and g: "get_order_by_id d i = Inr (Some order)"
  shows
   "(se_type event = Some ''checkout.session.completed'' \<longrightarrow>
       (\<forall>order'. order' = order \<lparr> o_status := PAID,
             o_payment_reference :=
               (if truthy (stripe_reference (se_object event))
                then stripe_reference (se_object event) else o_payment_reference order) \<rparr> \<longrightarrow>
          handle_stripe_event d event
            = (d \<lparr> orders := map (\<lambda>row. if o_id row = i then order' else row) (orders d) \<rparr>,
               Inr (order', PAID))))
    \<and> (se_type event \<in> {Some ''charge.refunded'', Some ''payment_intent.canceled''} \<longrightarrow>
         handle_stripe_event d event
           = (d \<lparr> orders := map (\<lambda>row. if o_id row = i
                                     then order \<lparr> o_status := REFUNDED \<rparr> else row) (orders d) \<rparr>,
              Inr (order \<lparr> o_status := REFUNDED \<rparr>, REFUNDED)))
    \<and> (se_type event \<in> {Some ''checkout.session.expired'', Some ''payment_intent.payment_failed''} \<longrightarrow>
         handle_stripe_event d event
           = (d \<lparr> orders := map (\<lambda>row. if o_id row = i
                                     then order \<lparr> o_status := CANCELLED \<rparr> else row) (orders d) \<rparr>,
              Inr (order \<lparr> o_status := CANCELLED \<rparr>, CANCELLED)))
    \<and> (se_type event \<notin> {Some ''checkout.session.completed'', Some ''charge.refunded'',
                          Some ''payment_intent.canceled'', Some ''checkout.session.expired'',
                          Some ''payment_intent.payment_failed''} \<longrightarrow>
         handle_stripe_event d event
           = (d, Inl (PaymentProviderError
                        (''Unhandled Stripe event: ''
                           @ (case se_type event of None \<Rightarrow> ''None'' | Some t \<Rightarrow> t)))))"
  unfolding handle_stripe_event_def Let_def
  by (auto simp: i g update_order_status_found [OF g])

text \<open>A cancelled payment intent for the pending basket order.\<close>

theorem handle_stripe_event_transitions_witness:
  "handle_stripe_event shop_sold canceled_event
     = (shop_sold \<lparr> orders := [basket_order \<lparr> o_status := REFUNDED \<rparr>] \<rparr>,
        Inr (basket_order \<lparr> o_status := REFUNDED \<rparr>, REFUNDED))"
proof -
  have i: "stripe_order_id (se_object canceled_event) = Some 1"
    by code_simp
  have g: "get_order_by_id shop_sold 1 = Inr (Some basket_order)"
    by code_simp
  have t: "se_type canceled_event \<in> {Some ''charge.refunded'', Some ''payment_intent.canceled''}"
    by (simp add: canceled_event_def)
  have d: "shop_sold \<lparr> orders := map (\<lambda>row. if o_id row = 1
              then basket_order \<lparr> o_status := REFUNDED \<rparr> else row) (orders shop_sold) \<rparr>
           = shop_sold \<lparr> orders := [basket_order \<lparr> o_status := REFUNDED \<rparr>] \<rparr>"
    by (simp add: shop_sold_def basket_order_def)
  from handle_stripe_event_transitions [OF i g, THEN conjunct2, THEN conjunct1, rule_format, OF t]
  show ?thesis by (simp only: d)
qed

text \<open>
  C7 as stated fails: the event \<open>payment_intent.canceled\<close> for the pending order 1 leaves
  it \<open>REFUNDED\<close>, not \<open>CANCELLED\<close>.
\<close>

theorem handle_stripe_event_canceled_counterexample:
  "se_type canceled_event = Some ''payment_intent.canceled''
   \<and> map o_status (orders shop_sold) = [PENDING]
   \<and> map_sum id snd (snd (handle_stripe_event shop_sold canceled_event)) = Inr REFUNDED
   \<and> map o_status (orders (fst (handle_stripe_event shop_sold canceled_event))) = [REFUNDED]"
  by code_simp

text \<open>
  C8. \<open>init_payment_session\<close> raises \<open>PaymentProviderError\<close> for every order whose
  status is neither \<open>PENDING\<close> nor \<open>DRAFT\<close>, and changes nothing then. Whatever the
  provider and however the call ends, the status of every order row is after the call
  what it was before, the product table is unchanged, and the order rows differ from what
  they were in \<open>payment_provider\<close> and \<open>payment_reference\<close> at most.
\<close>

theorem init_payment_session_status:
  "(o_status order \<notin> {PENDING, DRAFT} \<longrightarrow>
      init_payment_session stripe_imported stripe_secret_key stripe_create d order request
        = (d, Inl (PaymentProviderError ''Order already processed'')))
   \<and> (\<forall>d' r. init_payment_session stripe_imported stripe_secret_key stripe_create d order request
                 = (d', r) \<longrightarrow>
         map o_status (orders d') = map o_status (orders d)
         \<and> map (\<lambda>row. row \<lparr> o_payment_provider := None, o_payment_reference := None \<rparr>) (orders d')
             = map (\<lambda>row. row \<lparr> o_payment_provider := None, o_payment_reference := None \<rparr>) (orders d)
         \<and> products d' = products d)"
proof -
  have rejected: "o_status order \<notin> {PENDING, DRAFT} \<longrightarrow>
      init_payment_session stripe_imported stripe_secret_key stripe_create d order request
        = (d, Inl (PaymentProviderError ''Order already processed''))"
    by (simp add: init_payment_session_def)
  have kept: "\<forall>d' r. init_payment_session stripe_imported stripe_secret_key stripe_create d order request
                 = (d', r) \<longrightarrow>
         map o_status (orders d') = map o_status (orders d)
         \<and> map (\<lambda>row. row \<lparr> o_payment_provider := None, o_payment_reference := None \<rparr>) (orders d')
             = map (\<lambda>row. row \<lparr> o_payment_provider := None, o_payment_reference := None \<rparr>) (orders d)
         \<and> products d' = products d"
  proof (intro allI impI)
    fix d' r
    assume a: "init_payment_session stripe_imported stripe_secret_key stripe_create d order request
                 = (d', r)"
    have "d' = d \<or> (\<exists>provider reference r'. set_payment d order provider reference = (d', r'))"
      using a unfolding init_payment_session_def Let_def
      by (auto split: if_splits sum.splits prod.splits option.splits)
    then show "map o_status (orders d') = map o_status (orders d)
         \<and> map (\<lambda>row. row \<lparr> o_payment_provider := None, o_payment_reference := None \<rparr>) (orders d')
             = map (\<lambda>row. row \<lparr> o_payment_provider := None, o_payment_reference := None \<rparr>) (orders d)
         \<and> products d' = products d"
      using set_payment_keeps by blast
  qed
  from rejected kept show ?thesis by (rule conjI)
qed

text \<open>
  A sandbox session for the pending basket order: the reference is recorded and the
  status stays \<open>PENDING\<close>; the same request for a paid order is rejected.
\<close>

theorem init_payment_session_status_witness:
  "snd (init_payment_session False None (Inl []) shop_sold basket_order sandbox_request)
     = Inr \<lparr> checkout_url = ''https://checkout.paygreen.sandbox/session/paygreen_session_1'',
             payment_reference = ''paygreen_session_1'' \<rparr>
   \<and> map o_payment_reference
        (orders (fst (init_payment_session False None (Inl []) shop_sold basket_order sandbox_request)))
       = [Some ''paygreen_session_1'']
   \<and> map o_status
        (orders (fst (init_payment_session False None (Inl []) shop_sold basket_order sandbox_request)))
       = [PENDING]
   \<and> init_payment_session False None (Inl []) shop_sold (basket_order \<lparr> o_status := PAID \<rparr>)
        sandbox_request
       = (shop_sold, Inl (PaymentProviderError ''Order already processed''))"
proof -
  have s: "snd (init_payment_session False None (Inl []) shop_sold basket_order sandbox_request)
     = Inr \<lparr> checkout_url = ''https://checkout.paygreen.sandbox/session/paygreen_session_1'',
             payment_reference = ''paygreen_session_1'' \<rparr>
   \<and> map o_payment_reference
        (orders (fst (init_payment_session False None (Inl []) shop_sold basket_order sandbox_request)))
       = [Some ''paygreen_session_1'']"
    by code_simp
  have c: "init_payment_session False None (Inl []) shop_sold basket_order sandbox_request
      = (fst (init_payment_session False None (Inl []) shop_sold basket_order sandbox_request),
         snd (init_payment_session False None (Inl []) shop_sold basket_order sandbox_request))"
    by simp
  have k: "map o_status
        (orders (fst (init_payment_session False None (Inl []) shop_sold basket_order sandbox_request)))
       = [PENDING]"
    using init_payment_session_status [THEN conjunct2, rule_format, OF c]
    by (simp add: shop_sold_def basket_order_def)
  have n: "o_status (basket_order \<lparr> o_status := PAID \<rparr>) \<notin> {PENDING, DRAFT}"
    by simp
  from s k init_payment_session_status [THEN conjunct1, rule_format, OF n]
  show ?thesis by simp
qed

text \<open>
  C9. \<open>handle_webhook\<close> raises \<open>PaymentProviderError\<close> and leaves the database as it is
  when no order row has the order id of the webhook, and when the order is found and the
  provider of the webhook is not the provider recorded on the order.
\<close>

theorem handle_webhook_rejects:
  "((\<forall>row \<in> set (orders d). o_id row \<noteq> wh_order_id data) \<longrightarrow>
      handle_webhook d data = (d, Inl (PaymentProviderError ''Order not found'')))
   \<and> (\<forall>order. get_order_by_id d (wh_order_id data) = Inr (Some order)
         \<and> o_payment_provider order \<noteq> Some (wh_provider data) \<longrightarrow>
      handle_webhook d data = (d, Inl (PaymentProviderError ''Provider mismatch'')))"
proof (intro conjI impI allI)
  assume "\<forall>row \<in> set (orders d). o_id row \<noteq> wh_order_id data"
  from get_order_by_id_absent [OF this]
  show "handle_webhook d data = (d, Inl (PaymentProviderError ''Order not found''))"
    by (simp add: handle_webhook_def)
next
  fix order
  assume "get_order_by_id d (wh_order_id data) = Inr (Some order)
         \<and> o_payment_provider order \<noteq> Some (wh_provider data)"
  then show "handle_webhook d data = (d, Inl (PaymentProviderError ''Provider mismatch''))"
    by (simp add: handle_webhook_def)
qed

text \<open>A webhook for order 99, which does not exist, and one from another provider for order 1.\<close>

theorem handle_webhook_rejects_witness:
  "handle_webhook shop_sold (paid_hook \<lparr> wh_order_id := 99 \<rparr>)
     = (shop_sold, Inl (PaymentProviderError ''Order not found''))
   \<and> handle_webhook shop_sold (paid_hook \<lparr> wh_provider := ''stripe'' \<rparr>)
     = (shop_sold, Inl (PaymentProviderError ''Provider mismatch''))"
proof -
  have a: "\<forall>row \<in> set (orders shop_sold). o_id row \<noteq> wh_order_id (paid_hook \<lparr> wh_order_id := 99 \<rparr>)"
    by (simp add: shop_sold_def basket_order_def)
  have g: "get_order_by_id shop_sold (wh_order_id (paid_hook \<lparr> wh_provider := ''stripe'' \<rparr>))
             = Inr (Some basket_order)
           \<and> o_payment_provider basket_order \<noteq> Some (wh_provider (paid_hook \<lparr> wh_provider := ''stripe'' \<rparr>))"
    by code_simp
  from handle_webhook_rejects [THEN conjunct1, THEN mp, OF a]
       handle_webhook_rejects [THEN conjunct2, THEN spec, THEN mp, OF g]
  show ?thesis by (rule conjI)
qed

end
